theory Spec2Isabelle
  imports Main "HOL-Library.Word"
begin

unbundle bit_operations_syntax

section \<open>The MTD debug utility (mtd\_debug.c): a shallow embedding\<close>

text \<open>
  The program talks to a flash device and to files through system calls. The embedding
  makes that explicit: every function takes an environment \<open>e\<close> that holds the answers
  of the system, and returns its C return value together with the list of calls and
  messages it issued, in order. Buffers are modelled by their byte counts only; the
  bytes themselves play no part in the control flow.
\<close>

subsection \<open>Machine types\<close>

text \<open>
  The target (RV1103, a 32-bit ARM core) is ILP32: \<open>int\<close>, \<open>u_int32_t\<close> and \<open>size_t\<close>
  are 32 bits wide. An \<open>int\<close> is a 32-bit word read in two's complement: \<open>sint\<close> gives its
  value, \<open><s\<close> and \<open><=s\<close> compare, and arithmetic wraps. Conversions between \<open>int\<close> and
  \<open>size_t\<close> keep the bits. An \<open>off_t\<close> is a mathematical integer.
\<close>

type_synonym u32 = "32 word"
type_synonym cint = "32 word"

subsection \<open>The conversions of printf\<close>

definition hexdigits :: string where
  "hexdigits = ''0123456789abcdef''"

fun fmt_base :: "nat \<Rightarrow> nat \<Rightarrow> string" where
  "fmt_base b v =
     (if b < 2 then []
      else if v < b then [hexdigits ! v]
      else fmt_base b (v div b) @ [hexdigits ! (v mod b)])"

declare fmt_base.simps [simp del]

definition fmt_u :: "nat \<Rightarrow> string" where
  \<comment> \<open>\<open>%u\<close> and \<open>%zu\<close>\<close>
  "fmt_u v = fmt_base 10 v"

definition fmt_d :: "cint \<Rightarrow> string" where
  \<comment> \<open>\<open>%d\<close>: the 32 bits read as a signed value\<close>
  "fmt_d x = (if sint x < 0 then ''-'' @ fmt_base 10 (nat (- sint x))
              else fmt_base 10 (nat (sint x)))"

definition fmt_x :: "nat \<Rightarrow> string" where
  \<comment> \<open>\<open>%x\<close>\<close>
  "fmt_x v = fmt_base 16 v"

definition fmt_hash_x :: "nat \<Rightarrow> string" where
  \<comment> \<open>\<open>%#x\<close>: the prefix is left out for zero\<close>
  "fmt_hash_x v = (if v = 0 then ''0'' else ''0x'' @ fmt_base 16 v)"

definition fmt_p8x :: "nat \<Rightarrow> string" where
  \<comment> \<open>\<open>%.8x\<close> and \<open>%.8llx\<close>: at least eight digits, padded with zeros\<close>
  "fmt_p8x v = replicate (8 - length (fmt_base 16 v)) (CHR ''0'') @ fmt_base 16 v"

definition nl :: string where
  "nl = [CHR 0x0A]"

subsection \<open>printsize\<close>

definition flags_KMGT :: string where
  "flags_KMGT = ''KMGT''"

text \<open>
  The loop \<open>for (i = 0; x >= 1024 && flags[i] != '\0'; i++) x /= 1024;\<close>. The string
  has four characters and its terminating NUL at index 4, so \<open>flags[i] != '\0'\<close> is
  \<open>i < 4\<close> for the indices the loop reaches.
\<close>

function printsize_loop :: "u32 \<Rightarrow> nat \<Rightarrow> u32 \<times> nat" where
  "printsize_loop x i =
     (if 1024 \<le> x \<and> i < length flags_KMGT
      then printsize_loop (x div 1024) (i + 1)
      else (x, i))"
  by pat_completeness auto
termination
  by (relation "measure (\<lambda>(x, i). length flags_KMGT - i)") auto

declare printsize_loop.simps [simp del]

text \<open>The text that \<open>printsize\<close> writes to the standard output.\<close>

definition printsize :: "u32 \<Rightarrow> string" where
  "printsize x =
     fmt_u (unat x) @ '' '' @
     (case printsize_loop x 0 of
        (x', i) \<Rightarrow>
          (let i' = int i - 1
           in if 0 \<le> i'
              then ''('' @ fmt_u (unat x') @ [flags_KMGT ! nat i'] @ '')''
              else []))"

text \<open>
  The rendering as the specification words it: divide by 1024 while the value is at
  least 1024, counting the divisions; the count selects the suffix.
\<close>

fun scale_spec :: "nat \<Rightarrow> nat \<Rightarrow> nat \<times> nat" where
  "scale_spec v k = (if 1024 \<le> v then scale_spec (v div 1024) (Suc k) else (v, k))"

declare scale_spec.simps [simp del]

definition human_size_spec :: "nat \<Rightarrow> string" where
  "human_size_spec v =
     fmt_u v @ '' '' @
     (if v < 1024 then []
      else (case scale_spec v 0 of
              (s, k) \<Rightarrow> ''('' @ fmt_u s @ [''KMGT'' ! (k - 1)] @ '')''))"

subsection \<open>Kernel structures, system calls and the environment\<close>

text \<open>
  The structures of \<open>mtd/mtd-user.h\<close>, a header of the system that is not among the
  sources, with the fields that the program reads or writes.
\<close>

record mtd_info_user =
  mtd_type :: "8 word"
  mtd_flags :: u32
  mtd_size :: u32
  mtd_erasesize :: u32
  mtd_writesize :: u32
  mtd_oobsize :: u32

record erase_info_user =
  erase_start :: u32
  erase_length :: u32

record region_info_user =
  reg_offset :: u32
  reg_erasesize :: u32
  reg_numblocks :: u32
  regionindex :: u32

text \<open>
  The access mode given to \<open>open\<close>; \<open>O_SYNC\<close> is set in every call of the program.
\<close>

datatype access = O_RDONLY | O_RDWR

text \<open>
  What the program does to the outside, in order: system and library calls with their
  arguments, text written to the standard output (\<open>printf\<close>), text written to the
  diagnostic stream (\<open>fprintf(stderr, ...)\<close>), and \<open>perror\<close>, which writes its argument
  and the text of the current system error to the diagnostic stream.
\<close>

datatype event =
    Open string access
  | Close cint
  | Ioctl_MEMGETINFO cint
  | Ioctl_MEMERASE cint erase_info_user
  | Ioctl_MEMGETREGIONCOUNT cint
  | Ioctl_MEMGETREGIONINFO cint region_info_user
  | Lseek cint int
  | Creat string
  | Fopen string
  | Malloc u32
  | Free
  | Read cint u32
  | Write cint u32
  | Fread u32
  | Fclose
  | Stdout string
  | Stderr string
  | Perror string

text \<open>
  The answers of the system. A call that the program makes once for given arguments is
  answered by a function of the arguments. \<open>read\<close>, \<open>write\<close> and \<open>fread\<close> are called
  once in every round of a copy loop: their answers are functions of the number of the
  round (from 0) and of the byte count requested. An ioctl that fills a structure
  answers with its return value and the structure as it is after the call.
  \<open>sys_malloc\<close> and \<open>sys_fopen\<close> tell whether the result is non-null, \<open>sys_fread\<close> gives
  the number of items read. \<open>mtd_find_dev_node\<close> is a function of the repository that is
  not among the sources (it is declared in \<open>mtd_utils_all.h\<close>): it is a parameter, with
  \<open>None\<close> for a null result.
\<close>

record env =
  mtd_find_dev_node :: "string \<Rightarrow> string option"
  sys_open :: "string \<Rightarrow> access \<Rightarrow> cint"
  sys_close :: "cint \<Rightarrow> cint"
  sys_memgetinfo :: "cint \<times> mtd_info_user"
  sys_memerase :: "erase_info_user \<Rightarrow> cint"
  sys_regioncount :: "cint \<times> cint"
  sys_regioninfo :: "region_info_user \<Rightarrow> cint \<times> region_info_user"
  sys_lseek :: "int \<Rightarrow> int"
  sys_creat :: "string \<Rightarrow> cint"
  sys_fopen :: "string \<Rightarrow> bool"
  sys_malloc :: "u32 \<Rightarrow> bool"
  sys_read :: "nat \<Rightarrow> u32 \<Rightarrow> cint"
  sys_write :: "nat \<Rightarrow> u32 \<Rightarrow> cint"
  sys_fread :: "nat \<Rightarrow> u32 \<Rightarrow> nat"
  sys_ferror :: "nat \<Rightarrow> bool"

subsection \<open>getregions\<close>

text \<open>
  The table \<open>regions\<close> is the caller's array. A store beyond its end is undefined
  behaviour in C; the model stops there with a fault.
\<close>

datatype fault = Out_of_bounds

function getregions_loop ::
  "env \<Rightarrow> cint \<Rightarrow> region_info_user list \<Rightarrow> cint \<Rightarrow> nat \<Rightarrow> event list \<Rightarrow>
   fault + (cint \<times> region_info_user list \<times> event list)" where
  "getregions_loop e fd regions n i tr =
     (if int i < sint n then
        (if i < length regions then
           (let r = (regions ! i)\<lparr>regionindex := of_nat i\<rparr>;
                tr' = tr @ [Ioctl_MEMGETREGIONINFO fd r]
            in case sys_regioninfo e r of
                 (err, r') \<Rightarrow>
                   if err \<noteq> 0 then Inr (err, regions[i := r'], tr')
                   else getregions_loop e fd (regions[i := r']) n (i + 1) tr')
         else Inl Out_of_bounds)
      else Inr (0, regions, tr))"
  by pat_completeness auto
termination
  by (relation "measure (\<lambda>(e, fd, regions, n, i, tr). nat (sint n) - i)") auto

declare getregions_loop.simps [simp del]

text \<open>
  \<open>getregions\<close> returns its return value, the table, the value of \<open>*n\<close> and the calls
  it made.
\<close>

definition getregions ::
  "env \<Rightarrow> cint \<Rightarrow> region_info_user list \<Rightarrow>
   fault + (cint \<times> region_info_user list \<times> cint \<times> event list)" where
  "getregions e fd regions =
     (case sys_regioncount e of
        (err, n) \<Rightarrow>
          if err \<noteq> 0 then Inr (err, regions, n, [Ioctl_MEMGETREGIONCOUNT fd])
          else (case getregions_loop e fd regions n 0 [Ioctl_MEMGETREGIONCOUNT fd] of
                  Inl f \<Rightarrow> Inl f
                | Inr (err', regions', tr) \<Rightarrow> Inr (err', regions', n, tr)))"

subsection \<open>erase\_flash\<close>

definition erase_flash :: "env \<Rightarrow> cint \<Rightarrow> u32 \<Rightarrow> u32 \<Rightarrow> cint \<times> event list" where
  "erase_flash e fd offset bytes =
     (let erase = \<lparr>erase_start = offset, erase_length = bytes\<rparr>;
          err = sys_memerase e erase
      in if err <s 0 then (1, [Ioctl_MEMERASE fd erase, Perror ''MEMERASE''])
         else (0, [Ioctl_MEMERASE fd erase,
                   Stderr (''Erased '' @ fmt_d bytes @ '' bytes from address 0x'' @
                           fmt_p8x (unat offset) @ '' in flash'' @ nl)]))"

subsection \<open>The copy loops\<close>

definition BUF_SIZE :: u32 where
  "BUF_SIZE = 64 * 1024 * 1"

text \<open>
  The variables of a copy loop: \<open>n\<close>, \<open>size\<close>, the number of the round, and the events
  so far.
\<close>

record xfer =
  x_n :: cint
  x_size :: cint
  x_round :: nat
  x_tr :: "event list"

text \<open>
  How one round of a \<open>do ... while\<close> body ends: the condition holds and the loop goes
  round again, the condition fails and the loop is left, or the body jumps or returns
  out of the loop on an error.
\<close>

datatype step = Continue xfer | Break xfer | Fail xfer

subsubsection \<open>flash\_to\_file\<close>

text \<open>
  The label \<open>retry\<close>, with \<open>sz\<close> for the variable \<open>size\<close>: the result tells whether
  \<open>buf\<close> is non-null, and gives \<open>size\<close>.
\<close>

function flash_to_file_retry :: "env \<Rightarrow> cint \<Rightarrow> event list \<Rightarrow> bool \<times> cint \<times> event list" where
  "flash_to_file_retry e sz tr =
     (if sys_malloc e sz then (True, sz, tr @ [Malloc sz])
      else
        (let tr1 = tr @ [Malloc sz,
                         Stderr (''flash_to_file: malloc('' @ fmt_hash_x (unat sz) @ '')'' @ nl)]
         in if sz \<noteq> BUF_SIZE
            then flash_to_file_retry e BUF_SIZE
                   (tr1 @ [Stderr (''flash_to_file: trying buffer size '' @
                                   fmt_hash_x (unat BUF_SIZE) @ nl)])
            else (False, sz, tr1 @ [Perror ''malloc()''])))"
  by pat_completeness auto
termination
  by (relation "measure (\<lambda>(e, sz, tr). if sz \<noteq> BUF_SIZE then 1 else 0)") auto

declare flash_to_file_retry.simps [simp del]

text \<open>The label \<open>fail\<close>.\<close>

definition flash_to_file_fail :: "cint \<Rightarrow> event list \<Rightarrow> cint \<times> event list" where
  "flash_to_file_fail outfd tr = (1, tr @ [Close outfd, Free])"

definition flash_to_file_body :: "env \<Rightarrow> cint \<Rightarrow> cint \<Rightarrow> string \<Rightarrow> xfer \<Rightarrow> step" where
  "flash_to_file_body e fd outfd filename st =
     (let n = x_n st;
          size = (if n <=s x_size st then n else x_size st);
          err = sys_read e (x_round st) size;
          tr1 = x_tr st @ [Read fd size]
      in if err <s 0
         then Fail (st\<lparr>x_size := size,
                       x_tr := tr1 @ [Stderr (''flash_to_file: read, size '' @ fmt_hash_x (unat size) @
                                              '', n '' @ fmt_hash_x (unat n) @ nl),
                                      Perror ''read()'']\<rparr>)
         else
           (let tr2 = (if err <s size
                       then tr1 @ [Stderr (''flash_to_file: short read, requested '' @
                                           fmt_hash_x (unat size) @ '', read '' @
                                           fmt_hash_x (unat err) @ nl)]
                       else tr1);
                err' = sys_write e (x_round st) err;
                tr3 = tr2 @ [Write outfd err]
            in if err' <s 0
               then Fail (st\<lparr>x_size := size,
                             x_tr := tr3 @ [Stderr (''flash_to_file: write, size '' @
                                                    fmt_hash_x (unat size) @ '', n '' @
                                                    fmt_hash_x (unat n) @ nl),
                                            Perror ''write()'']\<rparr>)
               else if err' \<noteq> size
               then Fail (st\<lparr>x_size := size,
                             x_tr := tr3 @ [Stderr (''Couldn't copy entire buffer to '' @ filename @
                                                    ''. ('' @ fmt_d err' @ ''/'' @ fmt_d size @
                                                    '' bytes copied)'' @ nl)]\<rparr>)
               else
                 (let st' = \<lparr>x_n = n - size, x_size = size, x_round = x_round st + 1, x_tr = tr3\<rparr>
                  in if 0 <s x_n st' then Continue st' else Break st')))"

text \<open>
  The loop may fail to end for some values of its variables (\<open>size = 0\<close> and \<open>n > 0\<close>);
  not returning is the value \<open>None\<close>.
\<close>

partial_function (option) flash_to_file_loop ::
  "env \<Rightarrow> cint \<Rightarrow> cint \<Rightarrow> string \<Rightarrow> xfer \<Rightarrow> step option" where
  "flash_to_file_loop e fd outfd filename st =
     (case flash_to_file_body e fd outfd filename st of
        Continue st' \<Rightarrow> flash_to_file_loop e fd outfd filename st'
      | Break st' \<Rightarrow> Some (Break st')
      | Fail st' \<Rightarrow> Some (Fail st'))"

definition flash_to_file ::
  "env \<Rightarrow> cint \<Rightarrow> int \<Rightarrow> u32 \<Rightarrow> string \<Rightarrow> (cint \<times> event list) option" where
  "flash_to_file e fd offset len filename =
     (let size = len * 1;
          n = len
      in if offset \<noteq> sys_lseek e offset
         then Some (1, [Lseek fd offset, Perror ''lseek()''])
         else
           (let outfd = sys_creat e filename;
                tr = [Lseek fd offset, Creat filename]
            in if outfd <s 0 then Some (1, tr @ [Perror ''creat()''])
               else
                 (case flash_to_file_retry e size tr of
                    (False, size', tr') \<Rightarrow> Some (flash_to_file_fail outfd tr')
                  | (True, size', tr') \<Rightarrow>
                      (case flash_to_file_loop e fd outfd filename
                              \<lparr>x_n = n, x_size = size', x_round = 0, x_tr = tr'\<rparr> of
                         None \<Rightarrow> None
                       | Some (Fail st) \<Rightarrow> Some (flash_to_file_fail outfd (x_tr st))
                       | Some (Continue st) \<Rightarrow> None
                       | Some (Break st) \<Rightarrow>
                           Some (0, x_tr st @
                                    [Free, Close outfd,
                                     Stdout (''Copied '' @ fmt_u (unat len) @
                                             '' bytes from address 0x'' @
                                             fmt_p8x (nat (offset mod 2 ^ 64)) @
                                             '' in flash to '' @ filename @ nl)])))))"

subsubsection \<open>file\_to\_flash\<close>

function file_to_flash_retry :: "env \<Rightarrow> cint \<Rightarrow> event list \<Rightarrow> bool \<times> cint \<times> event list" where
  "file_to_flash_retry e sz tr =
     (if sys_malloc e sz then (True, sz, tr @ [Malloc sz])
      else
        (let tr1 = tr @ [Malloc sz,
                         Stderr (''file_to_flash: malloc('' @ fmt_hash_x (unat sz) @
                                 '') failed'' @ nl)]
         in if sz \<noteq> BUF_SIZE
            then file_to_flash_retry e BUF_SIZE
                   (tr1 @ [Stderr (''file_to_flash: trying buffer size '' @
                                   fmt_hash_x (unat BUF_SIZE) @ nl)])
            else (False, sz, tr1 @ [Perror ''malloc()'', Fclose])))"
  by pat_completeness auto
termination
  by (relation "measure (\<lambda>(e, sz, tr). if sz \<noteq> BUF_SIZE then 1 else 0)") auto

declare file_to_flash_retry.simps [simp del]

definition file_to_flash_body :: "env \<Rightarrow> cint \<Rightarrow> xfer \<Rightarrow> step" where
  "file_to_flash_body e fd st =
     (let n = x_n st;
          size = (if n <=s x_size st then n else x_size st);
          tr1 = x_tr st @ [Fread size]
      in if sys_fread e (x_round st) size \<noteq> 1 \<or> sys_ferror e (x_round st)
         then Fail (st\<lparr>x_size := size,
                       x_tr := tr1 @ [Stderr (''file_to_flash: fread, size '' @
                                              fmt_hash_x (unat size) @ '', n '' @
                                              fmt_hash_x (unat n) @ nl),
                                      Perror ''fread()'', Free, Fclose]\<rparr>)
         else
           (let err = sys_write e (x_round st) size;
                tr2 = tr1 @ [Write fd size]
            in if err <s 0
               then Fail (st\<lparr>x_size := size,
                             x_tr := tr2 @ [Stderr (''file_to_flash: write, size '' @
                                                    fmt_hash_x (unat size) @ '', n '' @
                                                    fmt_hash_x (unat n) @ nl),
                                            Perror ''write()'', Free, Fclose]\<rparr>)
               else
                 (let st' = \<lparr>x_n = n - size, x_size = size, x_round = x_round st + 1, x_tr = tr2\<rparr>
                  in if 0 <s x_n st' then Continue st' else Break st')))"

partial_function (option) file_to_flash_loop :: "env \<Rightarrow> cint \<Rightarrow> xfer \<Rightarrow> step option" where
  "file_to_flash_loop e fd st =
     (case file_to_flash_body e fd st of
        Continue st' \<Rightarrow> file_to_flash_loop e fd st'
      | Break st' \<Rightarrow> Some (Break st')
      | Fail st' \<Rightarrow> Some (Fail st'))"

definition file_to_flash ::
  "env \<Rightarrow> cint \<Rightarrow> int \<Rightarrow> u32 \<Rightarrow> string \<Rightarrow> (cint \<times> event list) option" where
  "file_to_flash e fd offset len filename =
     (let size = len * 1;
          n = len
      in if offset \<noteq> sys_lseek e offset
         then Some (1, [Lseek fd offset, Perror ''lseek()''])
         else
           (let tr = [Lseek fd offset, Fopen filename]
            in if \<not> sys_fopen e filename then Some (1, tr @ [Perror ''fopen()''])
               else
                 (case file_to_flash_retry e size tr of
                    (False, size', tr') \<Rightarrow> Some (1, tr')
                  | (True, size', tr') \<Rightarrow>
                      (case file_to_flash_loop e fd
                              \<lparr>x_n = n, x_size = size', x_round = 0, x_tr = tr'\<rparr> of
                         None \<Rightarrow> None
                       | Some (Fail st) \<Rightarrow> Some (1, x_tr st)
                       | Some (Continue st) \<Rightarrow> None
                       | Some (Break st) \<Rightarrow>
                           Some (0, x_tr st @
                                    [Free, Fclose,
                                     Stdout (''Copied '' @ fmt_d len @ '' bytes from '' @
                                             filename @ '' to address 0x'' @
                                             fmt_p8x (nat (offset mod 2 ^ 64)) @
                                             '' in flash'' @ nl)])))))"

subsection \<open>showinfo\<close>

text \<open>
  The constants of \<open>mtd/mtd-user.h\<close>, a header of the system that is not part of the
  program: they are parameters of the model.
\<close>

record mtd_abi =
  MTD_ABSENT :: cint
  MTD_RAM :: cint
  MTD_ROM :: cint
  MTD_NORFLASH :: cint
  MTD_NANDFLASH :: cint
  MTD_MLCNANDFLASH :: cint
  MTD_DATAFLASH :: cint
  MTD_UBIVOLUME :: cint
  MTD_CAP_ROM :: u32
  MTD_CAP_RAM :: u32
  MTD_CAP_NORFLASH :: u32
  MTD_CAP_NANDFLASH :: u32
  MTD_WRITEABLE :: u32
  MTD_BIT_WRITEABLE :: u32
  MTD_NO_ERASE :: u32
  MTD_POWERUP_LOCK :: u32

text \<open>The \<open>switch\<close> on \<open>mtd.type\<close>, an unsigned byte promoted to \<open>int\<close>.\<close>

definition show_type :: "mtd_abi \<Rightarrow> 8 word \<Rightarrow> string" where
  "show_type abi t =
     (let ty = (ucast t :: cint)
      in if ty = MTD_ABSENT abi then ''MTD_ABSENT''
         else if ty = MTD_RAM abi then ''MTD_RAM''
         else if ty = MTD_ROM abi then ''MTD_ROM''
         else if ty = MTD_NORFLASH abi then ''MTD_NORFLASH''
         else if ty = MTD_NANDFLASH abi then ''MTD_NANDFLASH''
         else if ty = MTD_MLCNANDFLASH abi then ''MTD_MLCNANDFLASH''
         else if ty = MTD_DATAFLASH abi then ''MTD_DATAFLASH''
         else if ty = MTD_UBIVOLUME abi then ''MTD_UBIVOLUME''
         else ''(unknown type - new MTD API maybe?)'')"

text \<open>The loop over the table \<open>flags[]\<close>, with the variable \<open>first\<close>.\<close>

fun show_flag_bits :: "u32 \<Rightarrow> (string \<times> u32) list \<Rightarrow> bool \<Rightarrow> string" where
  "show_flag_bits f [] first = []"
| "show_flag_bits f ((name, val) # rest) first =
     (if f AND val \<noteq> 0
      then (if first then name @ show_flag_bits f rest False
            else '' | '' @ name @ show_flag_bits f rest first)
      else show_flag_bits f rest first)"

definition show_flags :: "mtd_abi \<Rightarrow> u32 \<Rightarrow> string" where
  "show_flags abi f =
     (if f = MTD_CAP_ROM abi then ''MTD_CAP_ROM''
      else if f = MTD_CAP_RAM abi then ''MTD_CAP_RAM''
      else if f = MTD_CAP_NORFLASH abi then ''MTD_CAP_NORFLASH''
      else if f = MTD_CAP_NANDFLASH abi then ''MTD_CAP_NANDFLASH''
      else show_flag_bits f
             [(''MTD_WRITEABLE'', MTD_WRITEABLE abi),
              (''MTD_BIT_WRITEABLE'', MTD_BIT_WRITEABLE abi),
              (''MTD_NO_ERASE'', MTD_NO_ERASE abi),
              (''MTD_POWERUP_LOCK'', MTD_POWERUP_LOCK abi)] True)"

text \<open>The body of the loop that prints \<open>region[i]\<close>.\<close>

definition show_region :: "region_info_user list \<Rightarrow> nat \<Rightarrow> string" where
  "show_region region i =
     ''region['' @ fmt_u i @ ''].offset = 0x'' @ fmt_p8x (unat (reg_offset (region ! i))) @ nl @
     ''region['' @ fmt_u i @ ''].erasesize = '' @
     printsize (reg_erasesize (region ! i)) @
     nl @ ''region['' @ fmt_u i @ ''].numblocks = '' @ fmt_d (reg_numblocks (region ! i)) @ nl @
     ''region['' @ fmt_u i @ ''].regionindex = '' @ fmt_d (regionindex (region ! i)) @ nl"

text \<open>
  \<open>showinfo\<close>. The table \<open>region\<close> has static storage: its contents at the call are a
  parameter. The report is one \<open>Stdout\<close> event. Reading \<open>region[i]\<close> beyond the end of
  the table is a fault, as the store in \<open>getregions\<close> is.
\<close>

definition showinfo ::
  "env \<Rightarrow> mtd_abi \<Rightarrow> cint \<Rightarrow> region_info_user list \<Rightarrow> fault + (cint \<times> event list)" where
  "showinfo e abi fd region =
     (case sys_memgetinfo e of
        (err, mtd) \<Rightarrow>
          if err <s 0 then Inr (1, [Ioctl_MEMGETINFO fd, Perror ''MEMGETINFO''])
          else
            (case getregions e fd region of
               Inl f \<Rightarrow> Inl f
             | Inr (err', region', n, tr) \<Rightarrow>
                 if err' <s 0
                 then Inr (1, [Ioctl_MEMGETINFO fd] @ tr @ [Perror ''MEMGETREGIONCOUNT''])
                 else if length region' < nat (sint n) then Inl Out_of_bounds
                 else Inr (0, [Ioctl_MEMGETINFO fd] @ tr @
                     [Stdout (''mtd.type = '' @ show_type abi (mtd_type mtd) @
                              nl @ ''mtd.flags = '' @ show_flags abi (mtd_flags mtd) @
                              nl @ ''mtd.size = '' @ printsize (mtd_size mtd) @
                              nl @ ''mtd.erasesize = '' @ printsize (mtd_erasesize mtd) @
                              nl @ ''mtd.writesize = '' @ printsize (mtd_writesize mtd) @
                              nl @ ''mtd.oobsize = '' @ printsize (mtd_oobsize mtd) @
                              nl @ ''regions = '' @ fmt_d n @ nl @ nl @
                              concat (map (show_region region') [0..<nat (sint n)]))])))"

subsection \<open>The commands\<close>

text \<open>A command returns to its caller, or ends the process.\<close>

datatype outcome = Returned cint | Died

text \<open>
  Modelled from the spec: \<open>errmsg_die\<close>, a macro of \<open>common.h\<close>, which is not among the
  sources. Section 4.5: ``close failure is itself a fatal error surfaced to the caller.
  All failures from resolution or opening are fatal and terminate the command'';
  section 7: ``errors are written to a diagnostic stream''. The command ends at once,
  after the message.
\<close>

definition errmsg_die :: "string \<Rightarrow> event list \<Rightarrow> outcome \<times> event list" where
  "errmsg_die msg tr = (Died, tr @ [Stderr msg])"

definition mtd_debug_info ::
  "env \<Rightarrow> mtd_abi \<Rightarrow> region_info_user list \<Rightarrow> string \<Rightarrow> fault + (outcome \<times> event list)" where
  "mtd_debug_info e abi region mtd_dev =
     (let err = (0 :: cint)
      in case mtd_find_dev_node e mtd_dev of
           None \<Rightarrow> Inr (errmsg_die (''Failed to find MTD device '' @ mtd_dev) [])
         | Some dev \<Rightarrow>
             (let fd = sys_open e dev O_RDONLY;
                  tr1 = [Open dev O_RDONLY]
              in if fd <s 0 then Inr (errmsg_die ''open()'' tr1)
                 else
                   (case showinfo e abi fd region of
                      Inl f \<Rightarrow> Inl f
                    | Inr (r, tr) \<Rightarrow>
                        (let tr2 = tr1 @ tr @ [Close fd]
                         in if sys_close e fd <s 0 then Inr (errmsg_die ''close()'' tr2)
                            else Inr (Returned err, tr2)))))"

definition banner :: "string \<Rightarrow> string \<Rightarrow> u32 \<Rightarrow> u32 \<Rightarrow> event" where
  \<comment> \<open>\<open>printf("%s %s %x %x\n", __func__, mtd_dev, offset, length)\<close>\<close>
  "banner func mtd_dev offset len =
     Stdout (func @ '' '' @ mtd_dev @ '' '' @ fmt_x (unat offset) @ '' '' @ fmt_x (unat len) @ nl)"

definition mtd_debug_read ::
  "env \<Rightarrow> string \<Rightarrow> u32 \<Rightarrow> u32 \<Rightarrow> string \<Rightarrow> (outcome \<times> event list) option" where
  "mtd_debug_read e mtd_dev offset len file =
     (let tr0 = [banner ''mtd_debug_read'' mtd_dev offset len]
      in case mtd_find_dev_node e mtd_dev of
           None \<Rightarrow> Some (errmsg_die (''Failed to find MTD device '' @ mtd_dev) tr0)
         | Some dev \<Rightarrow>
             (let fd = sys_open e dev O_RDONLY;
                  tr1 = tr0 @ [Open dev O_RDONLY]
              in if fd <s 0 then Some (errmsg_die ''open()'' tr1)
                 else
                   (case flash_to_file e fd (uint offset) len file of
                      None \<Rightarrow> None
                    | Some (err, tr) \<Rightarrow>
                        (let tr2 = tr1 @ tr @ [Close fd]
                         in if sys_close e fd <s 0 then Some (errmsg_die ''close()'' tr2)
                            else Some (Returned err, tr2)))))"

definition mtd_debug_write ::
  "env \<Rightarrow> string \<Rightarrow> u32 \<Rightarrow> u32 \<Rightarrow> string \<Rightarrow> (outcome \<times> event list) option" where
  "mtd_debug_write e mtd_dev offset len file =
     (let tr0 = [banner ''mtd_debug_write'' mtd_dev offset len]
      in case mtd_find_dev_node e mtd_dev of
           None \<Rightarrow> Some (errmsg_die (''Failed to find MTD device '' @ mtd_dev) tr0)
         | Some dev \<Rightarrow>
             (let fd = sys_open e dev O_RDWR;
                  tr1 = tr0 @ [Open dev O_RDWR]
              in if fd <s 0 then Some (errmsg_die ''open()'' tr1)
                 else
                   (case file_to_flash e fd (uint offset) len file of
                      None \<Rightarrow> None
                    | Some (err, tr) \<Rightarrow>
                        (let tr2 = tr1 @ tr @ [Close fd]
                         in if sys_close e fd <s 0 then Some (errmsg_die ''close()'' tr2)
                            else Some (Returned err, tr2)))))"

definition mtd_debug_erase ::
  "env \<Rightarrow> string \<Rightarrow> u32 \<Rightarrow> u32 \<Rightarrow> outcome \<times> event list" where
  "mtd_debug_erase e mtd_dev offset len =
     (let tr0 = [banner ''mtd_debug_erase'' mtd_dev offset len]
      in case mtd_find_dev_node e mtd_dev of
           None \<Rightarrow> errmsg_die (''Failed to find MTD device '' @ mtd_dev) tr0
         | Some dev \<Rightarrow>
             (let fd = sys_open e dev O_RDWR;
                  tr1 = tr0 @ [Open dev O_RDWR]
              in if fd <s 0 then errmsg_die ''open()'' tr1
                 else
                   (case erase_flash e fd offset len of
                      (err, tr) \<Rightarrow>
                        (let tr2 = tr1 @ tr @ [Close fd]
                         in if sys_close e fd <s 0 then errmsg_die ''close()'' tr2
                            else (Returned err, tr2)))))"

subsection \<open>Reading results and traces\<close>

fun the_xfer :: "step \<Rightarrow> xfer" where
  "the_xfer (Continue st) = st"
| "the_xfer (Break st) = st"
| "the_xfer (Fail st) = st"

fun is_Continue :: "step \<Rightarrow> bool" where
  "is_Continue (Continue st) = True"
| "is_Continue (Break st) = False"
| "is_Continue (Fail st) = False"

fun is_Fail :: "step \<Rightarrow> bool" where
  "is_Fail (Fail st) = True"
| "is_Fail (Continue st) = False"
| "is_Fail (Break st) = False"

fun is_Malloc :: "event \<Rightarrow> bool" where
  "is_Malloc (Malloc sz) = True"
| "is_Malloc ev = False"

fun is_Read :: "event \<Rightarrow> bool" where
  "is_Read (Read fd c) = True"
| "is_Read ev = False"

fun is_Write :: "event \<Rightarrow> bool" where
  "is_Write (Write fd c) = True"
| "is_Write ev = False"

fun is_Stdout :: "event \<Rightarrow> bool" where
  "is_Stdout (Stdout s) = True"
| "is_Stdout ev = False"

fun is_Open :: "event \<Rightarrow> bool" where
  "is_Open (Open d m) = True"
| "is_Open ev = False"

text \<open>A message on the diagnostic stream.\<close>

fun is_diagnostic :: "event \<Rightarrow> bool" where
  "is_diagnostic (Stderr s) = True"
| "is_diagnostic (Perror s) = True"
| "is_diagnostic ev = False"

text \<open>The events that a round of a copy loop can add.\<close>

fun copy_event :: "event \<Rightarrow> bool" where
  "copy_event (Read fd c) = True"
| "copy_event (Write fd c) = True"
| "copy_event (Fread c) = True"
| "copy_event (Stderr s) = True"
| "copy_event (Perror s) = True"
| "copy_event Free = True"
| "copy_event Fclose = True"
| "copy_event ev = False"

text \<open>
  What POSIX promises of the value \<open>r\<close> that \<open>read\<close> or \<open>write\<close> returns for a byte count
  \<open>c\<close> (a \<open>size_t\<close>, compared unsigned): an error, or no more than \<open>c\<close> bytes.
\<close>

definition posix_ret :: "cint \<Rightarrow> u32 \<Rightarrow> bool" where
  "posix_ret r c = (r <s 0 \<or> r \<le> c)"

text \<open>The size that a round requests: \<open>if (n <= size) size = n;\<close>.\<close>

definition chunk :: "xfer \<Rightarrow> cint" where
  "chunk st = (if x_n st <=s x_size st then x_n st else x_size st)"

subsection \<open>A system in which every call succeeds in full\<close>

definition zero_region :: region_info_user where
  "zero_region = \<lparr>reg_offset = 0, reg_erasesize = 0, reg_numblocks = 0, regionindex = 0\<rparr>"

definition sys0 :: env where
  "sys0 =
     \<lparr>mtd_find_dev_node = (\<lambda>d. Some (''/dev/'' @ d)),
      sys_open = (\<lambda>p m. 3),
      sys_close = (\<lambda>fd. 0),
      sys_memgetinfo =
        (0, \<lparr>mtd_type = 4, mtd_flags = 0x400, mtd_size = 0x8000000,
             mtd_erasesize = 0x20000, mtd_writesize = 0x800, mtd_oobsize = 64\<rparr>),
      sys_memerase = (\<lambda>er. 0),
      sys_regioncount = (0, 0),
      sys_regioninfo = (\<lambda>r. (0, r\<lparr>reg_erasesize := 0x20000, reg_numblocks := 1024\<rparr>)),
      sys_lseek = (\<lambda>off. off),
      sys_creat = (\<lambda>f. 4),
      sys_fopen = (\<lambda>f. True),
      sys_malloc = (\<lambda>sz. True),
      sys_read = (\<lambda>k c. c),
      sys_write = (\<lambda>k c. c),
      sys_fread = (\<lambda>k c. 1),
      sys_ferror = (\<lambda>k. False)\<rparr>"

definition abi0 :: mtd_abi where
  "abi0 =
     \<lparr>MTD_ABSENT = 0, MTD_RAM = 1, MTD_ROM = 2, MTD_NORFLASH = 3, MTD_NANDFLASH = 4,
      MTD_MLCNANDFLASH = 8, MTD_DATAFLASH = 6, MTD_UBIVOLUME = 7,
      MTD_CAP_ROM = 0, MTD_CAP_RAM = 0x1c00, MTD_CAP_NORFLASH = 0xc00,
      MTD_CAP_NANDFLASH = 0x400,
      MTD_WRITEABLE = 0x400, MTD_BIT_WRITEABLE = 0x800, MTD_NO_ERASE = 0x1000,
      MTD_POWERUP_LOCK = 0x2000\<rparr>"

subsection \<open>Sample states and systems\<close>


text \<open>A loop state after the fallback to the 64 KiB buffer, with 128 KiB to go.\<close>

definition st0 :: xfer where
  "st0 = \<lparr>x_n = 131072, x_size = 65536, x_round = 0, x_tr = []\<rparr>"

text \<open>A device that gives 100 bytes to every read.\<close>

definition sys_short_read :: env where
  "sys_short_read = sys0\<lparr>sys_read := (\<lambda>k c. 100)\<rparr>"


subsection \<open>Messages and sample systems of the copy functions\<close>

text \<open>The diagnostic of \<open>file_to_flash\<close> for a failed read of the file.\<close>

definition fread_msg :: "cint \<Rightarrow> cint \<Rightarrow> string" where
  "fread_msg sz n =
     ''file_to_flash: fread, size '' @ fmt_hash_x (unat sz) @ '', n '' @
     fmt_hash_x (unat n) @ nl"

text \<open>
  A device that takes 2 bytes of the first write, when only the 64 KiB buffer can be
  allocated.
\<close>

definition sys_short_write :: env where
  "sys_short_write =
     sys0\<lparr>sys_malloc := (\<lambda>sz. sz = 65536), sys_write := (\<lambda>k c. if k = 0 then 2 else c)\<rparr>"

text \<open>A source file that ends after the first chunk, with the same allocator.\<close>

definition sys_short_file :: env where
  "sys_short_file =
     sys0\<lparr>sys_malloc := (\<lambda>sz. sz = 65536), sys_fread := (\<lambda>k c. if k = 0 then 1 else 0)\<rparr>"

text \<open>How a trace ends when the read of the file failed.\<close>

definition fread_failure :: "event list \<Rightarrow> bool" where
  "fread_failure tr =
     (\<exists>pre c m. tr = pre @ [Fread c, Stderr m, Perror ''fread()'', Free, Fclose])"

text \<open>The one-line summaries of the three operations.\<close>

definition read_summary :: "u32 \<Rightarrow> int \<Rightarrow> string \<Rightarrow> string" where
  "read_summary len offset filename =
     ''Copied '' @ fmt_u (unat len) @ '' bytes from address 0x'' @
     fmt_p8x (nat (offset mod 2 ^ 64)) @ '' in flash to '' @ filename @ nl"

definition write_summary :: "u32 \<Rightarrow> int \<Rightarrow> string \<Rightarrow> string" where
  "write_summary len offset filename =
     ''Copied '' @ fmt_d len @ '' bytes from '' @ filename @ '' to address 0x'' @
     fmt_p8x (nat (offset mod 2 ^ 64)) @ '' in flash'' @ nl"

definition erase_summary :: "u32 \<Rightarrow> u32 \<Rightarrow> string" where
  "erase_summary bytes offset =
     ''Erased '' @ fmt_d bytes @ '' bytes from address 0x'' @ fmt_p8x (unat offset) @
     '' in flash'' @ nl"

text \<open>
  The allocation requests of a transfer of \<open>len\<close> bytes, and when no buffer is obtained.
\<close>

definition malloc_requests :: "env \<Rightarrow> u32 \<Rightarrow> event list" where
  "malloc_requests e len =
     (if sys_malloc e len then [Malloc len]
      else if len \<noteq> 65536 then [Malloc len, Malloc 65536]
      else [Malloc len])"

definition out_of_memory :: "env \<Rightarrow> u32 \<Rightarrow> bool" where
  "out_of_memory e len = (\<not> sys_malloc e len \<and> (len = 65536 \<or> \<not> sys_malloc e 65536))"

text \<open>A system without memory for any buffer.\<close>

definition sys_no_memory :: env where
  "sys_no_memory = sys0\<lparr>sys_malloc := (\<lambda>sz. False)\<rparr>"

text \<open>
  What a call of \<open>flash_to_file\<close> or \<open>file_to_flash\<close> that returned \<open>r\<close> with the trace
  \<open>tr\<close> wrote to the two streams, between its first call and its return: on
  success its summary as the last event and the only text on the standard output, on
  failure nothing on the standard output and at least one diagnostic.
\<close>

definition reports :: "cint \<Rightarrow> event list \<Rightarrow> string \<Rightarrow> bool" where
  "reports r tr summary =
     (if r = 0 then filter is_Stdout tr = [Stdout summary] \<and> last tr = Stdout summary
      else r = 1 \<and> filter is_Stdout tr = [] \<and> (\<exists>ev \<in> set tr. is_diagnostic ev))"

text \<open>
  The structure that the query for region \<open>i\<close> passes to the ioctl, and the table after
  the first \<open>k\<close> queries were answered.
\<close>

definition region_query :: "region_info_user list \<Rightarrow> nat \<Rightarrow> region_info_user" where
  "region_query regions i = (regions ! i)\<lparr>regionindex := of_nat i\<rparr>"

definition answered :: "env \<Rightarrow> region_info_user list \<Rightarrow> nat \<Rightarrow> region_info_user list" where
  "answered e regions k =
     map (\<lambda>j. if j < k then snd (sys_regioninfo e (region_query regions j)) else regions ! j)
       [0..<length regions]"

text \<open>A device that reports two regions and fails every query for one.\<close>

definition sys_region_fail :: env where
  "sys_region_fail = sys0\<lparr>sys_regioncount := (0, 2), sys_regioninfo := (\<lambda>r. (- 1, r))\<rparr>"

text \<open>A device with two regions.\<close>

definition sys_two_regions :: env where
  "sys_two_regions = sys0\<lparr>sys_regioncount := (0, 2)\<rparr>"

text \<open>A device whose information query fails.\<close>

definition sys_info_fail :: env where
  "sys_info_fail = sys0\<lparr>sys_memgetinfo := (- 1, snd (sys_memgetinfo sys0))\<rparr>"

text \<open>
  The end of every command, after the operation left the events \<open>tr\<close>: the device is
  closed, and a failed close ends the process.
\<close>

definition close_events :: "env \<Rightarrow> cint \<Rightarrow> event list" where
  "close_events e fd =
     (if sys_close e fd <s 0 then [Close fd, Stderr ''close()''] else [Close fd])"

definition close_outcome :: "env \<Rightarrow> cint \<Rightarrow> cint \<Rightarrow> outcome" where
  "close_outcome e fd err = (if sys_close e fd <s 0 then Died else Returned err)"

text \<open>A system in which \<open>close\<close> fails.\<close>

definition sys_close_fail :: env where
  "sys_close_fail = sys0\<lparr>sys_close := (\<lambda>fd. - 1)\<rparr>"




section \<open>Properties\<close>

subsection \<open>Human-size rendering\<close>

lemma scale_spec_fst_le: "fst (scale_spec v k) \<le> v"
proof (induction v k rule: scale_spec.induct)
  case (1 v k)
  show ?case
  proof (cases "1024 \<le> v")
    case True
    with 1 have "fst (scale_spec (v div 1024) (Suc k)) \<le> v div 1024" by simp
    also have "\<dots> \<le> v" by simp
    finally show ?thesis using True by (simp add: scale_spec.simps [of v k])
  next
    case False
    then show ?thesis by (simp add: scale_spec.simps [of v k])
  qed
qed

lemma scale_spec_snd:
  "k \<le> snd (scale_spec v k) \<and> (1024 \<le> v \<longrightarrow> k < snd (scale_spec v k))"
proof (induction v k rule: scale_spec.induct)
  case (1 v k)
  show ?case
  proof (cases "1024 \<le> v")
    case True
    with 1 have "Suc k \<le> snd (scale_spec (v div 1024) (Suc k))" by simp
    then show ?thesis using True by (simp add: scale_spec.simps [of v k])
  next
    case False
    then show ?thesis by (simp add: scale_spec.simps [of v k])
  qed
qed

text \<open>
  While fewer than four divisions have been made and the value is below the matching
  power of 1024, the bound on the index never stops the loop of the program: it makes
  the divisions of the specification.
\<close>

lemma printsize_loop_scale_spec:
  "unat x < 1024 ^ (4 - i) \<Longrightarrow> i \<le> 4 \<Longrightarrow>
   printsize_loop x i =
     (word_of_nat (fst (scale_spec (unat x) i)), snd (scale_spec (unat x) i))"
proof (induction x i rule: printsize_loop.induct)
  case (1 x i)
  show ?case
  proof (cases "1024 \<le> x")
    case False
    then have "unat x < 1024" by (simp add: word_le_nat_alt)
    then show ?thesis using False
      by (simp add: printsize_loop.simps [of x i] scale_spec.simps [of "unat x" i])
  next
    case True
    then have ge: "1024 \<le> unat x" by (simp add: word_le_nat_alt)
    with "1.prems" have i4: "i < 4" by (cases "i = 4") auto
    have d: "unat (x div 1024) = unat x div 1024" by (simp add: unat_div)
    have "unat x < 1024 * 1024 ^ (4 - Suc i)" using "1.prems" i4
      by (metis Suc_diff_Suc power_Suc)
    then have "unat x div 1024 < 1024 ^ (4 - (i + 1))"
      by (simp add: less_mult_imp_div_less mult.commute)
    with 1 True i4 d have "printsize_loop (x div 1024) (i + 1) =
        (word_of_nat (fst (scale_spec (unat x div 1024) (i + 1))),
         snd (scale_spec (unat x div 1024) (i + 1)))"
      by (simp add: flags_KMGT_def)
    then show ?thesis using True i4 ge
      by (simp add: printsize_loop.simps [of x i] scale_spec.simps [of "unat x" i]
          flags_KMGT_def)
  qed
qed

lemma printsize_loop_0:
  fixes x :: u32
  shows "printsize_loop x 0 =
    (word_of_nat (fst (scale_spec (unat x) 0)), snd (scale_spec (unat x) 0))"
proof -
  have "unat x < 2 ^ 32" using unsigned_less [of x] by simp
  then have "unat x < 1024 ^ (4 - 0)" by simp
  then show ?thesis by (rule printsize_loop_scale_spec) simp
qed

lemma unat_scaled:
  fixes x :: u32
  shows "unat (word_of_nat (fst (scale_spec (unat x) 0)) :: u32) = fst (scale_spec (unat x) 0)"
proof -
  have "fst (scale_spec (unat x) 0) \<le> unat x" by (rule scale_spec_fst_le)
  then show ?thesis by (rule le_unat_uoi)
qed

lemma printsize_human_size_spec: "printsize x = human_size_spec (unat x)"
proof (cases "x < 1024")
  case True
  then have u: "unat x < 1024" by (simp add: word_less_nat_alt)
  then have "scale_spec (unat x) 0 = (unat x, 0)"
    by (simp add: scale_spec.simps [of "unat x" 0])
  then show ?thesis using u
    by (simp add: printsize_def human_size_spec_def printsize_loop_0)
next
  case False
  then have u: "1024 \<le> unat x" by (simp add: word_less_nat_alt)
  then have k: "0 < snd (scale_spec (unat x) 0)" using scale_spec_snd [of 0 "unat x"] by simp
  obtain s k where sk: "scale_spec (unat x) 0 = (s, k)" by (cases "scale_spec (unat x) 0")
  with k have k0: "0 < k" by simp
  then have "nat (int k - 1) = k - 1" by simp
  moreover have "unat (word_of_nat s :: u32) = s" using unat_scaled [of x] sk by simp
  ultimately show ?thesis using u sk k0
    by (simp add: printsize_def human_size_spec_def printsize_loop_0 flags_KMGT_def Let_def)
qed

lemmas printsize_eval =
  word_le_nat_alt printsize_def fmt_u_def fmt_base.simps printsize_loop.simps
  flags_KMGT_def hexdigits_def

text \<open>
  Claim C8. For every 32-bit value \<open>x\<close>, \<open>printsize\<close> prints the byte count and a space
  and then, only when \<open>x\<close> is at least 1024, the value divided by 1024 as long as it is at
  least 1024, in parentheses with the suffix selected by the number of divisions:
  the text of the program is the text of the specification. 512 and 0 are printed
  without a suffix, 2048 with the scaled value 2 and K, 1048576 with the scaled value 1
  and M.
\<close>

theorem printsize_renders_human_size:
  "printsize x = human_size_spec (unat x) \<and>
   printsize 512 = ''512 '' \<and>
   printsize 2048 = ''2048 (2K)'' \<and>
   printsize 1048576 = ''1048576 (1M)'' \<and>
   printsize 0 = ''0 ''"
proof -
  have "printsize 512 = ''512 ''" by (simp add: printsize_eval)
  moreover have "printsize 2048 = ''2048 (2K)''" by (simp add: printsize_eval)
  moreover have "printsize 1048576 = ''1048576 (1M)''" by (simp add: printsize_eval)
  moreover have "printsize 0 = ''0 ''" by (simp add: printsize_eval)
  ultimately show ?thesis by (simp only: printsize_human_size_spec simp_thms)
qed

theorem printsize_renders_human_size_witness:
  "printsize 3221225472 = ''3221225472 (3G)'' \<and> human_size_spec 5000 = ''5000 (4K)''"
proof -
  have "human_size_spec 5000 = ''5000 (4K)''"
    by (simp add: human_size_spec_def scale_spec.simps fmt_u_def fmt_base.simps hexdigits_def)
  moreover have "human_size_spec (unat (3221225472 :: u32)) = ''3221225472 (3G)''"
    by (simp add: human_size_spec_def scale_spec.simps fmt_u_def fmt_base.simps hexdigits_def)
  ultimately show ?thesis
    using printsize_renders_human_size [of 3221225472] by simp
qed

subsection \<open>The copy loops: signed and unsigned order, rounds, termination, traces\<close>



lemma flash_to_file_body_advance:
  assumes "flash_to_file_body e fd outfd f st = Continue st' \<or>
           flash_to_file_body e fd outfd f st = Break st'"
  shows "\<not> sys_read e (x_round st) (chunk st) <s 0 \<and>
         sys_write e (x_round st) (sys_read e (x_round st) (chunk st)) = chunk st \<and>
         \<not> chunk st <s 0 \<and>
         x_n st' = x_n st - chunk st \<and> x_size st' = chunk st \<and>
         x_round st' = x_round st + 1"
  using assms
  by (auto simp: flash_to_file_body_def chunk_def Let_def split: if_splits)

lemma flash_to_file_body_Continue:
  assumes "flash_to_file_body e fd outfd f st = Continue st'"
  shows "0 <s x_n st - chunk st"
  using assms
  by (auto simp: flash_to_file_body_def chunk_def Let_def split: if_splits)

lemma flash_to_file_body_Fail:
  assumes "flash_to_file_body e fd outfd f st = Fail st'"
  shows "x_n st' = x_n st \<and> x_round st' = x_round st"
  using assms
  by (auto simp: flash_to_file_body_def chunk_def Let_def split: if_splits)

lemma flash_to_file_body_trace:
  "\<exists>evs. x_tr (the_xfer (flash_to_file_body e fd outfd f st)) = x_tr st @ evs \<and>
     list_all copy_event evs"
  by (auto simp: flash_to_file_body_def chunk_def Let_def split: if_splits)

lemma sint_sub_BUF:
  fixes n :: cint
  assumes "\<not> n <=s 65536"
  shows "sint (n - 65536) = sint n - 65536"
proof -
  have "65536 < sint n" using assms by (simp add: word_sle_eq)
  moreover have "sint n < 2 ^ 31" using sint_lt [of n] by simp
  ultimately show ?thesis
    by (simp add: sint_word_diff signed_take_bit_int_eq_self)
qed

lemma flash_to_file_loop_total:
  "x_size st = BUF_SIZE \<or> x_n st <=s x_size st \<Longrightarrow>
   \<exists>r. flash_to_file_loop e fd outfd f st = Some r \<and> \<not> is_Continue r"
proof (induction "nat (sint (x_n st))" arbitrary: st rule: less_induct)
  case less
  show ?case
  proof (cases "flash_to_file_body e fd outfd f st")
    case (Break st')
    then show ?thesis by (subst flash_to_file_loop.simps) simp
  next
    case (Fail st')
    then show ?thesis by (subst flash_to_file_loop.simps) simp
  next
    case (Continue st')
    then have pos: "0 <s x_n st - chunk st" by (rule flash_to_file_body_Continue)
    have nle: "\<not> x_n st <=s x_size st"
    proof
      assume "x_n st <=s x_size st"
      then have "chunk st = x_n st" by (simp add: chunk_def)
      with pos show False by simp
    qed
    with less.prems have sz: "x_size st = BUF_SIZE" by simp
    with nle have ch: "chunk st = 65536" by (simp add: chunk_def BUF_SIZE_def)
    from nle sz have n: "\<not> x_n st <=s 65536" by (simp add: BUF_SIZE_def)
    from Continue have adv: "x_n st' = x_n st - chunk st" "x_size st' = chunk st"
      using flash_to_file_body_advance [of e fd outfd f st st'] by simp_all
    have "sint (x_n st') = sint (x_n st) - 65536" using adv ch sint_sub_BUF [OF n] by simp
    moreover have "65536 < sint (x_n st)" using n by (simp add: word_sle_eq)
    ultimately have "nat (sint (x_n st')) < nat (sint (x_n st))" by simp
    moreover have "x_size st' = BUF_SIZE" using adv ch by (simp add: BUF_SIZE_def)
    ultimately have "\<exists>r. flash_to_file_loop e fd outfd f st' = Some r \<and> \<not> is_Continue r"
      using less.hyps by simp
    then show ?thesis using Continue by (subst flash_to_file_loop.simps) simp
  qed
qed

lemma flash_to_file_loop_trace:
  assumes "flash_to_file_loop e fd outfd f st = Some r"
  shows "\<exists>evs. x_tr (the_xfer r) = x_tr st @ evs \<and> list_all copy_event evs"
  using assms
proof (induction e fd outfd f st r rule: flash_to_file_loop.raw_induct)
  case (1 loop e fd outfd f st r)
  obtain evs where evs: "x_tr (the_xfer (flash_to_file_body e fd outfd f st)) = x_tr st @ evs"
      "list_all copy_event evs"
    using flash_to_file_body_trace by blast
  show ?case
  proof (cases "flash_to_file_body e fd outfd f st")
    case (Continue st')
    with 1(2) have l: "loop e fd outfd f st' = Some r" by simp
    from 1(3) Continue have "flash_to_file_loop e fd outfd f st' = Some r"
      by (subst (asm) flash_to_file_loop.simps) simp
    with 1(1) l obtain evs' where "x_tr (the_xfer r) = x_tr st' @ evs'" "list_all copy_event evs'"
      by blast
    with evs Continue show ?thesis by auto
  next
    case (Break st')
    with 1 evs show ?thesis by auto
  next
    case (Fail st')
    with 1 evs show ?thesis by auto
  qed
qed (rule assms)


lemma file_to_flash_body_advance:
  assumes "file_to_flash_body e fd st = Continue st' \<or> file_to_flash_body e fd st = Break st'"
  shows "sys_fread e (x_round st) (chunk st) = 1 \<and> \<not> sys_ferror e (x_round st) \<and>
         \<not> sys_write e (x_round st) (chunk st) <s 0 \<and>
         x_n st' = x_n st - chunk st \<and> x_size st' = chunk st \<and>
         x_round st' = x_round st + 1 \<and>
         x_tr st' = x_tr st @ [Fread (chunk st), Write fd (chunk st)]"
  using assms
  by (auto simp: file_to_flash_body_def chunk_def Let_def split: if_splits)

lemma file_to_flash_body_Continue:
  assumes "file_to_flash_body e fd st = Continue st'"
  shows "0 <s x_n st - chunk st"
  using assms
  by (auto simp: file_to_flash_body_def chunk_def Let_def split: if_splits)

lemma file_to_flash_body_trace:
  "\<exists>evs. x_tr (the_xfer (file_to_flash_body e fd st)) = x_tr st @ evs \<and>
     list_all copy_event evs"
  by (auto simp: file_to_flash_body_def chunk_def Let_def split: if_splits)

lemma file_to_flash_loop_total:
  "x_size st = BUF_SIZE \<or> x_n st <=s x_size st \<Longrightarrow>
   \<exists>r. file_to_flash_loop e fd st = Some r \<and> \<not> is_Continue r"
proof (induction "nat (sint (x_n st))" arbitrary: st rule: less_induct)
  case less
  show ?case
  proof (cases "file_to_flash_body e fd st")
    case (Break st')
    then show ?thesis by (subst file_to_flash_loop.simps) simp
  next
    case (Fail st')
    then show ?thesis by (subst file_to_flash_loop.simps) simp
  next
    case (Continue st')
    then have pos: "0 <s x_n st - chunk st" by (rule file_to_flash_body_Continue)
    have nle: "\<not> x_n st <=s x_size st"
    proof
      assume "x_n st <=s x_size st"
      then have "chunk st = x_n st" by (simp add: chunk_def)
      with pos show False by simp
    qed
    with less.prems have sz: "x_size st = BUF_SIZE" by simp
    with nle have ch: "chunk st = 65536" by (simp add: chunk_def BUF_SIZE_def)
    from nle sz have n: "\<not> x_n st <=s 65536" by (simp add: BUF_SIZE_def)
    from Continue have adv: "x_n st' = x_n st - chunk st" "x_size st' = chunk st"
      using file_to_flash_body_advance [of e fd st st'] by simp_all
    have "sint (x_n st') = sint (x_n st) - 65536" using adv ch sint_sub_BUF [OF n] by simp
    moreover have "65536 < sint (x_n st)" using n by (simp add: word_sle_eq)
    ultimately have "nat (sint (x_n st')) < nat (sint (x_n st))" by simp
    moreover have "x_size st' = BUF_SIZE" using adv ch by (simp add: BUF_SIZE_def)
    ultimately have "\<exists>r. file_to_flash_loop e fd st' = Some r \<and> \<not> is_Continue r"
      using less.hyps by simp
    then show ?thesis using Continue by (subst file_to_flash_loop.simps) simp
  qed
qed

lemma file_to_flash_loop_trace:
  assumes "file_to_flash_loop e fd st = Some r"
  shows "\<exists>evs. x_tr (the_xfer r) = x_tr st @ evs \<and> list_all copy_event evs"
  using assms
proof (induction e fd st r rule: file_to_flash_loop.raw_induct)
  case (1 loop e fd st r)
  obtain evs where evs: "x_tr (the_xfer (file_to_flash_body e fd st)) = x_tr st @ evs"
      "list_all copy_event evs"
    using file_to_flash_body_trace by blast
  show ?case
  proof (cases "file_to_flash_body e fd st")
    case (Continue st')
    with 1(2) have l: "loop e fd st' = Some r" by simp
    from 1(3) Continue have "file_to_flash_loop e fd st' = Some r"
      by (subst (asm) file_to_flash_loop.simps) simp
    with 1(1) l obtain evs' where "x_tr (the_xfer r) = x_tr st' @ evs'" "list_all copy_event evs'"
      by blast
    with evs Continue show ?thesis by auto
  next
    case (Break st')
    with 1 evs show ?thesis by auto
  next
    case (Fail st')
    with 1 evs show ?thesis by auto
  qed
qed (rule assms)

subsection \<open>Evaluation\<close>

lemma replicate_numeral: "replicate (numeral k) x = x # replicate (pred_numeral k) x"
  by (simp add: numeral_eq_Suc)

lemmas fmt_eval =
  replicate_numeral fmt_u_def fmt_d_def fmt_x_def fmt_hash_x_def fmt_p8x_def fmt_base.simps
  hexdigits_def nl_def

lemmas run_eval =
  flash_to_file_def flash_to_file_retry.simps flash_to_file_loop.simps flash_to_file_body_def
  flash_to_file_fail_def file_to_flash_def file_to_flash_retry.simps file_to_flash_loop.simps
  file_to_flash_body_def BUF_SIZE_def Let_def word_sless_alt word_sle_eq

subsection \<open>A round of the read-out loop\<close>

lemma full_chunk:
  assumes adv: "\<not> is_Fail (flash_to_file_body e fd outfd f st)"
      and rd: "posix_ret (sys_read e (x_round st) (chunk st)) (chunk st)"
      and wr: "posix_ret (sys_write e (x_round st) (sys_read e (x_round st) (chunk st)))
                 (sys_read e (x_round st) (chunk st))"
  shows "sys_read e (x_round st) (chunk st) = chunk st \<and>
         sys_write e (x_round st) (chunk st) = chunk st \<and>
         x_n (the_xfer (flash_to_file_body e fd outfd f st)) = x_n st - chunk st"
proof -
  let ?r = "sys_read e (x_round st) (chunk st)"
  from adv obtain st' where
    "flash_to_file_body e fd outfd f st = Continue st' \<or>
     flash_to_file_body e fd outfd f st = Break st'"
    by (cases "flash_to_file_body e fd outfd f st") auto
  then have b: "\<not> ?r <s 0" "sys_write e (x_round st) ?r = chunk st" "\<not> chunk st <s 0"
      "x_n st' = x_n st - chunk st"
      "x_n (the_xfer (flash_to_file_body e fd outfd f st)) = x_n st'"
    using flash_to_file_body_advance [of e fd outfd f st st'] by auto
  from wr b have "chunk st \<le> ?r" by (simp add: posix_ret_def)
  moreover from rd b have "?r \<le> chunk st" by (simp add: posix_ret_def)
  ultimately have "?r = chunk st" by simp
  with b show ?thesis by simp
qed

text \<open>
  Claim C10. In the device-to-file loop a round goes on to the loop condition only when
  the device read returned exactly the size requested and the file write wrote exactly
  that many bytes. The check after the write compares the bytes written with the size
  requested, not with the bytes read: a write that wrote all the bytes of a short read
  still fails the round. So every short read ends the transfer, and \<open>n\<close> is decremented
  only after a full chunk was moved: a failed round leaves it as it was. \<open>read\<close> and
  \<open>write\<close> are taken to follow POSIX in the round: neither reports more bytes than it
  was asked for.
\<close>

theorem flash_to_file_round_moves_full_chunk:
  assumes rd: "posix_ret (sys_read e (x_round st) (chunk st)) (chunk st)"
      and wr: "posix_ret (sys_write e (x_round st) (sys_read e (x_round st) (chunk st)))
                 (sys_read e (x_round st) (chunk st))"
  shows "(\<not> is_Fail (flash_to_file_body e fd outfd f st) \<longrightarrow>
            sys_read e (x_round st) (chunk st) = chunk st \<and>
            sys_write e (x_round st) (chunk st) = chunk st \<and>
            x_n (the_xfer (flash_to_file_body e fd outfd f st)) = x_n st - chunk st) \<and>
         (sys_read e (x_round st) (chunk st) <s chunk st \<longrightarrow>
            is_Fail (flash_to_file_body e fd outfd f st)) \<and>
         (sys_write e (x_round st) (sys_read e (x_round st) (chunk st)) \<noteq> chunk st \<longrightarrow>
            is_Fail (flash_to_file_body e fd outfd f st)) \<and>
         (is_Fail (flash_to_file_body e fd outfd f st) \<longrightarrow>
            x_n (the_xfer (flash_to_file_body e fd outfd f st)) = x_n st)"
proof (intro conjI impI)
  assume "\<not> is_Fail (flash_to_file_body e fd outfd f st)"
  with rd wr show "sys_read e (x_round st) (chunk st) = chunk st"
    and "sys_write e (x_round st) (chunk st) = chunk st"
    and "x_n (the_xfer (flash_to_file_body e fd outfd f st)) = x_n st - chunk st"
    using full_chunk [of e fd outfd f st] by simp_all
next
  assume short: "sys_read e (x_round st) (chunk st) <s chunk st"
  show "is_Fail (flash_to_file_body e fd outfd f st)"
  proof (rule ccontr)
    assume "\<not> is_Fail (flash_to_file_body e fd outfd f st)"
    with rd wr have "sys_read e (x_round st) (chunk st) = chunk st"
      using full_chunk [of e fd outfd f st] by simp
    with short show False by simp
  qed
next
  assume "sys_write e (x_round st) (sys_read e (x_round st) (chunk st)) \<noteq> chunk st"
  then show "is_Fail (flash_to_file_body e fd outfd f st)"
    by (auto simp: flash_to_file_body_def chunk_def Let_def)
next
  assume "is_Fail (flash_to_file_body e fd outfd f st)"
  then obtain st' where "flash_to_file_body e fd outfd f st = Fail st'"
    by (cases "flash_to_file_body e fd outfd f st") auto
  then show "x_n (the_xfer (flash_to_file_body e fd outfd f st)) = x_n st"
    using flash_to_file_body_Fail [of e fd outfd f st st'] by simp
qed

theorem flash_to_file_round_moves_full_chunk_witness:
  "posix_ret (sys_read sys0 (x_round st0) (chunk st0)) (chunk st0) \<and>
   posix_ret (sys_write sys0 (x_round st0) (sys_read sys0 (x_round st0) (chunk st0)))
     (sys_read sys0 (x_round st0) (chunk st0)) \<and>
   \<not> is_Fail (flash_to_file_body sys0 3 4 ''out.bin'' st0) \<and>
   sys_read sys0 (x_round st0) (chunk st0) = 65536 \<and>
   x_n (the_xfer (flash_to_file_body sys0 3 4 ''out.bin'' st0)) = 65536 \<and>
   posix_ret (sys_read sys_short_read (x_round st0) (chunk st0)) (chunk st0) \<and>
   posix_ret (sys_write sys_short_read (x_round st0)
               (sys_read sys_short_read (x_round st0) (chunk st0)))
     (sys_read sys_short_read (x_round st0) (chunk st0)) \<and>
   sys_read sys_short_read (x_round st0) (chunk st0) <s chunk st0 \<and>
   is_Fail (flash_to_file_body sys_short_read 3 4 ''out.bin'' st0) \<and>
   x_n (the_xfer (flash_to_file_body sys_short_read 3 4 ''out.bin'' st0)) = 131072"
proof -
  have c: "chunk st0 = 65536" by (simp add: chunk_def st0_def)
  have p1: "posix_ret (sys_read sys0 (x_round st0) (chunk st0)) (chunk st0)"
    by (simp add: c posix_ret_def sys0_def)
  have p2: "posix_ret (sys_write sys0 (x_round st0) (sys_read sys0 (x_round st0) (chunk st0)))
     (sys_read sys0 (x_round st0) (chunk st0))"
    by (simp add: c posix_ret_def sys0_def)
  have nf: "\<not> is_Fail (flash_to_file_body sys0 3 4 ''out.bin'' st0)"
    by (simp add: flash_to_file_body_def sys0_def st0_def Let_def word_sless_alt word_sle_eq)
  have q1: "posix_ret (sys_read sys_short_read (x_round st0) (chunk st0)) (chunk st0)"
    by (simp add: c posix_ret_def sys0_def sys_short_read_def)
  have q2: "posix_ret (sys_write sys_short_read (x_round st0)
               (sys_read sys_short_read (x_round st0) (chunk st0)))
     (sys_read sys_short_read (x_round st0) (chunk st0))"
    by (simp add: c posix_ret_def sys0_def sys_short_read_def)
  have sh: "sys_read sys_short_read (x_round st0) (chunk st0) <s chunk st0"
    by (simp add: c sys0_def sys_short_read_def)
  have n0: "x_n st0 = 131072" by (simp add: st0_def)
  have r0: "sys_read sys0 (x_round st0) (chunk st0) = 65536" by (simp add: c sys0_def)
  have a: "x_n (the_xfer (flash_to_file_body sys0 3 4 ''out.bin'' st0)) = x_n st0 - chunk st0"
    using flash_to_file_round_moves_full_chunk [OF p1 p2, of 3 4 "''out.bin''"] nf by blast
  have f: "is_Fail (flash_to_file_body sys_short_read 3 4 ''out.bin'' st0)"
    using flash_to_file_round_moves_full_chunk [OF q1 q2, of 3 4 "''out.bin''"] sh by blast
  then have b: "x_n (the_xfer (flash_to_file_body sys_short_read 3 4 ''out.bin'' st0)) = x_n st0"
    using flash_to_file_round_moves_full_chunk [OF q1 q2, of 3 4 "''out.bin''"] by blast
  from a have a': "x_n (the_xfer (flash_to_file_body sys0 3 4 ''out.bin'' st0)) = 65536"
    by (simp add: c n0)
  from b have b': "x_n (the_xfer (flash_to_file_body sys_short_read 3 4 ''out.bin'' st0)) = 131072"
    by (simp add: n0)
  from p1 p2 nf r0 a' q1 q2 sh f b' show ?thesis by (intro conjI)
qed


subsection \<open>A short read from the device\<close>





subsection \<open>A short write\<close>

text \<open>
  Claim C1 (the program does not do what the claim says). With 128 KiB to write and the
  64 KiB buffer, the device takes 2 bytes of the first write of 65536: \<open>file_to_flash\<close>
  tests the result of \<open>write\<close> for an error only, goes on to read and write the second
  chunk, and returns 0 after the summary of a full copy. \<open>flash_to_file\<close>, with the same
  answer of \<open>write\<close>, compares the count with the size, reports the short write and
  returns 1 without another call.
\<close>

theorem file_to_flash_short_write_unnoticed:
  "sys_write sys_short_write 0 65536 = 2 \<and>
   file_to_flash sys_short_write 3 0 131072 ''in.bin'' =
     Some (0, [Lseek 3 0, Fopen ''in.bin'', Malloc 131072,
               Stderr (''file_to_flash: malloc(0x20000) failed'' @ nl),
               Stderr (''file_to_flash: trying buffer size 0x10000'' @ nl),
               Malloc 65536, Fread 65536, Write 3 65536, Fread 65536, Write 3 65536,
               Free, Fclose,
               Stdout (''Copied 131072 bytes from in.bin to address 0x00000000 in flash'' @ nl)]) \<and>
   flash_to_file sys_short_write 3 0 131072 ''out.bin'' =
     Some (1, [Lseek 3 0, Creat ''out.bin'', Malloc 131072,
               Stderr (''flash_to_file: malloc(0x20000)'' @ nl),
               Stderr (''flash_to_file: trying buffer size 0x10000'' @ nl),
               Malloc 65536, Read 3 65536, Write 4 65536,
               Stderr (''Couldn't copy entire buffer to out.bin. (2/65536 bytes copied)'' @ nl),
               Close 4, Free])"
  by (simp add: sys_short_write_def sys0_def run_eval fmt_eval)

subsection \<open>The results of the copy functions\<close>

lemma file_to_flash_body_Fail:
  assumes "file_to_flash_body e fd st = Fail st'"
  shows "x_tr st' = x_tr st @ [Fread (chunk st), Stderr (fread_msg (chunk st) (x_n st)),
                                Perror ''fread()'', Free, Fclose] \<or>
         (\<exists>m. x_tr st' = x_tr st @ [Fread (chunk st), Write fd (chunk st), Stderr m,
                                Perror ''write()'', Free, Fclose])"
  using assms
  by (auto simp: file_to_flash_body_def chunk_def fread_msg_def Let_def split: if_splits)

lemma file_to_flash_loop_fread:
  assumes "file_to_flash_loop e fd st = Some r"
  shows "Perror ''fread()'' \<notin> set (x_tr st) \<longrightarrow>
         Perror ''fread()'' \<in> set (x_tr (the_xfer r)) \<longrightarrow>
         is_Fail r \<and> fread_failure (x_tr (the_xfer r))"
  using assms
proof (induction e fd st r rule: file_to_flash_loop.raw_induct)
  case (1 loop e fd st r)
  show ?case
  proof (cases "file_to_flash_body e fd st")
    case (Continue st')
    with 1(2) have l: "loop e fd st' = Some r" by simp
    from 1(3) Continue have l': "file_to_flash_loop e fd st' = Some r"
      by (subst (asm) file_to_flash_loop.simps) simp
    have "x_tr st' = x_tr st @ [Fread (chunk st), Write fd (chunk st)]"
      using Continue file_to_flash_body_advance [of e fd st st'] by simp
    then have "Perror ''fread()'' \<notin> set (x_tr st) \<longrightarrow> Perror ''fread()'' \<notin> set (x_tr st')"
      by simp
    with 1(1) [OF l l'] show ?thesis by blast
  next
    case (Break st')
    then have "x_tr st' = x_tr st @ [Fread (chunk st), Write fd (chunk st)]"
      using file_to_flash_body_advance [of e fd st st'] by simp
    moreover from 1(2) Break have "r = Break st'" by simp
    ultimately show ?thesis by simp
  next
    case (Fail st')
    from 1(2) Fail have r: "r = Fail st'" by simp
    from file_to_flash_body_Fail [OF Fail] show ?thesis
    proof
      assume "x_tr st' = x_tr st @ [Fread (chunk st), Stderr (fread_msg (chunk st) (x_n st)),
                                Perror ''fread()'', Free, Fclose]"
      then have "fread_failure (x_tr st')" unfolding fread_failure_def by blast
      with r show ?thesis by simp
    next
      assume "\<exists>m. x_tr st' = x_tr st @ [Fread (chunk st), Write fd (chunk st), Stderr m,
                                Perror ''write()'', Free, Fclose]"
      then have "Perror ''fread()'' \<notin> set (x_tr st) \<longrightarrow> Perror ''fread()'' \<notin> set (x_tr st')"
        by auto
      with r show ?thesis by simp
    qed
  qed
qed (rule assms)

lemma file_to_flash_retry_cases:
  "file_to_flash_retry e sz tr =
     (if sys_malloc e sz then (True, sz, tr @ [Malloc sz])
      else if sz \<noteq> BUF_SIZE then
        (if sys_malloc e BUF_SIZE
         then (True, BUF_SIZE,
               tr @ [Malloc sz,
                     Stderr (''file_to_flash: malloc('' @ fmt_hash_x (unat sz) @ '') failed'' @ nl),
                     Stderr (''file_to_flash: trying buffer size '' @
                             fmt_hash_x (unat BUF_SIZE) @ nl),
                     Malloc BUF_SIZE])
         else (False, BUF_SIZE,
               tr @ [Malloc sz,
                     Stderr (''file_to_flash: malloc('' @ fmt_hash_x (unat sz) @ '') failed'' @ nl),
                     Stderr (''file_to_flash: trying buffer size '' @
                             fmt_hash_x (unat BUF_SIZE) @ nl),
                     Malloc BUF_SIZE,
                     Stderr (''file_to_flash: malloc('' @ fmt_hash_x (unat BUF_SIZE) @
                             '') failed'' @ nl),
                     Perror ''malloc()'', Fclose]))
      else (False, sz,
            tr @ [Malloc sz,
                  Stderr (''file_to_flash: malloc('' @ fmt_hash_x (unat sz) @ '') failed'' @ nl),
                  Perror ''malloc()'', Fclose]))"
  by (simp add: file_to_flash_retry.simps [of e sz] file_to_flash_retry.simps [of e BUF_SIZE]
      Let_def)

lemma flash_to_file_retry_cases:
  "flash_to_file_retry e sz tr =
     (if sys_malloc e sz then (True, sz, tr @ [Malloc sz])
      else if sz \<noteq> BUF_SIZE then
        (if sys_malloc e BUF_SIZE
         then (True, BUF_SIZE,
               tr @ [Malloc sz,
                     Stderr (''flash_to_file: malloc('' @ fmt_hash_x (unat sz) @ '')'' @ nl),
                     Stderr (''flash_to_file: trying buffer size '' @
                             fmt_hash_x (unat BUF_SIZE) @ nl),
                     Malloc BUF_SIZE])
         else (False, BUF_SIZE,
               tr @ [Malloc sz,
                     Stderr (''flash_to_file: malloc('' @ fmt_hash_x (unat sz) @ '')'' @ nl),
                     Stderr (''flash_to_file: trying buffer size '' @
                             fmt_hash_x (unat BUF_SIZE) @ nl),
                     Malloc BUF_SIZE,
                     Stderr (''flash_to_file: malloc('' @ fmt_hash_x (unat BUF_SIZE) @ '')'' @ nl),
                     Perror ''malloc()'']))
      else (False, sz,
            tr @ [Malloc sz,
                  Stderr (''flash_to_file: malloc('' @ fmt_hash_x (unat sz) @ '')'' @ nl),
                  Perror ''malloc()'']))"
  by (simp add: flash_to_file_retry.simps [of e sz] flash_to_file_retry.simps [of e BUF_SIZE]
      Let_def)

lemma retry_size:
  assumes "flash_to_file_retry e sz tr = (True, sz', tr')"
  shows "sz' = BUF_SIZE \<or> sz' = sz"
  using assms by (auto simp: flash_to_file_retry_cases split: if_splits)

lemma retry_size':
  assumes "file_to_flash_retry e sz tr = (True, sz', tr')"
  shows "sz' = BUF_SIZE \<or> sz' = sz"
  using assms by (auto simp: file_to_flash_retry_cases split: if_splits)

text \<open>
  Every call of \<open>flash_to_file\<close> returns, in one of five ways. The loop ends because it
  starts with \<open>n <= size\<close> or with the 64 KiB buffer.
\<close>

lemma flash_to_file_cases [consumes 0, case_names seek creat nomem failed copied]:
  obtains
    "offset \<noteq> sys_lseek e offset"
    "flash_to_file e fd offset len f = Some (1, [Lseek fd offset, Perror ''lseek()''])"
  | "offset = sys_lseek e offset" "sys_creat e f <s 0"
    "flash_to_file e fd offset len f = Some (1, [Lseek fd offset, Creat f, Perror ''creat()''])"
  | sz' tr' where
    "offset = sys_lseek e offset" "\<not> sys_creat e f <s 0"
    "flash_to_file_retry e len [Lseek fd offset, Creat f] = (False, sz', tr')"
    "flash_to_file e fd offset len f = Some (1, tr' @ [Close (sys_creat e f), Free])"
  | sz' tr' st' where
    "offset = sys_lseek e offset" "\<not> sys_creat e f <s 0"
    "flash_to_file_retry e len [Lseek fd offset, Creat f] = (True, sz', tr')"
    "flash_to_file_loop e fd (sys_creat e f) f
       \<lparr>x_n = len, x_size = sz', x_round = 0, x_tr = tr'\<rparr> = Some (Fail st')"
    "flash_to_file e fd offset len f = Some (1, x_tr st' @ [Close (sys_creat e f), Free])"
  | sz' tr' st' where
    "offset = sys_lseek e offset" "\<not> sys_creat e f <s 0"
    "flash_to_file_retry e len [Lseek fd offset, Creat f] = (True, sz', tr')"
    "flash_to_file_loop e fd (sys_creat e f) f
       \<lparr>x_n = len, x_size = sz', x_round = 0, x_tr = tr'\<rparr> = Some (Break st')"
    "flash_to_file e fd offset len f =
       Some (0, x_tr st' @ [Free, Close (sys_creat e f), Stdout (read_summary len offset f)])"
proof (cases "offset \<noteq> sys_lseek e offset")
  case True
  then have "flash_to_file e fd offset len f = Some (1, [Lseek fd offset, Perror ''lseek()''])"
    by (simp add: flash_to_file_def)
  with True that(1) show ?thesis by auto
next
  case seek: False
  show ?thesis
  proof (cases "sys_creat e f <s 0")
    case True
    with seek have "flash_to_file e fd offset len f =
        Some (1, [Lseek fd offset, Creat f, Perror ''creat()''])"
      by (simp add: flash_to_file_def Let_def)
    with seek True that(2) show ?thesis by auto
  next
    case creat: False
    obtain ok sz' tr' where
      retry: "flash_to_file_retry e len [Lseek fd offset, Creat f] = (ok, sz', tr')"
      by (cases "flash_to_file_retry e len [Lseek fd offset, Creat f]")
    show ?thesis
    proof (cases ok)
      case False
      with seek creat retry have "flash_to_file e fd offset len f =
          Some (1, tr' @ [Close (sys_creat e f), Free])"
        by (simp add: flash_to_file_def flash_to_file_fail_def Let_def)
      with seek creat retry False that(3) show ?thesis by auto
    next
      case True
      with retry have "sz' = BUF_SIZE \<or> sz' = len" using retry_size [of e len _ sz' tr'] by simp
      then have "x_size \<lparr>x_n = len, x_size = sz', x_round = 0, x_tr = tr'\<rparr> = BUF_SIZE \<or>
          x_n \<lparr>x_n = len, x_size = sz', x_round = 0, x_tr = tr'\<rparr> <=s
          x_size \<lparr>x_n = len, x_size = sz', x_round = 0, x_tr = tr'\<rparr>"
        by auto
      then obtain r where r: "flash_to_file_loop e fd (sys_creat e f) f
            \<lparr>x_n = len, x_size = sz', x_round = 0, x_tr = tr'\<rparr> = Some r"
          "\<not> is_Continue r"
        using flash_to_file_loop_total by blast
      show ?thesis
      proof (cases r)
        case (Continue st')
        with r show ?thesis by simp
      next
        case (Break st')
        with seek creat retry True r have "flash_to_file e fd offset len f =
           Some (0, x_tr st' @ [Free, Close (sys_creat e f), Stdout (read_summary len offset f)])"
          by (simp add: flash_to_file_def read_summary_def Let_def)
        with seek creat retry True r Break that(5) show ?thesis by auto
      next
        case (Fail st')
        with seek creat retry True r have "flash_to_file e fd offset len f =
           Some (1, x_tr st' @ [Close (sys_creat e f), Free])"
          by (simp add: flash_to_file_def flash_to_file_fail_def Let_def)
        with seek creat retry True r Fail that(4) show ?thesis by auto
      qed
    qed
  qed
qed

lemma file_to_flash_cases [consumes 0, case_names seek fopen nomem failed copied]:
  obtains
    "offset \<noteq> sys_lseek e offset"
    "file_to_flash e fd offset len f = Some (1, [Lseek fd offset, Perror ''lseek()''])"
  | "offset = sys_lseek e offset" "\<not> sys_fopen e f"
    "file_to_flash e fd offset len f = Some (1, [Lseek fd offset, Fopen f, Perror ''fopen()''])"
  | sz' tr' where
    "offset = sys_lseek e offset" "sys_fopen e f"
    "file_to_flash_retry e len [Lseek fd offset, Fopen f] = (False, sz', tr')"
    "file_to_flash e fd offset len f = Some (1, tr')"
  | sz' tr' st' where
    "offset = sys_lseek e offset" "sys_fopen e f"
    "file_to_flash_retry e len [Lseek fd offset, Fopen f] = (True, sz', tr')"
    "file_to_flash_loop e fd \<lparr>x_n = len, x_size = sz', x_round = 0, x_tr = tr'\<rparr> =
       Some (Fail st')"
    "file_to_flash e fd offset len f = Some (1, x_tr st')"
  | sz' tr' st' where
    "offset = sys_lseek e offset" "sys_fopen e f"
    "file_to_flash_retry e len [Lseek fd offset, Fopen f] = (True, sz', tr')"
    "file_to_flash_loop e fd \<lparr>x_n = len, x_size = sz', x_round = 0, x_tr = tr'\<rparr> =
       Some (Break st')"
    "file_to_flash e fd offset len f =
       Some (0, x_tr st' @ [Free, Fclose, Stdout (write_summary len offset f)])"
proof (cases "offset \<noteq> sys_lseek e offset")
  case True
  then have "file_to_flash e fd offset len f = Some (1, [Lseek fd offset, Perror ''lseek()''])"
    by (simp add: file_to_flash_def)
  with True that(1) show ?thesis by auto
next
  case seek: False
  show ?thesis
  proof (cases "sys_fopen e f")
    case False
    with seek have "file_to_flash e fd offset len f =
        Some (1, [Lseek fd offset, Fopen f, Perror ''fopen()''])"
      by (simp add: file_to_flash_def Let_def)
    with seek False that(2) show ?thesis by auto
  next
    case fopen: True
    obtain ok sz' tr' where
      retry: "file_to_flash_retry e len [Lseek fd offset, Fopen f] = (ok, sz', tr')"
      by (cases "file_to_flash_retry e len [Lseek fd offset, Fopen f]")
    show ?thesis
    proof (cases ok)
      case False
      with seek fopen retry have "file_to_flash e fd offset len f = Some (1, tr')"
        by (simp add: file_to_flash_def Let_def)
      with seek fopen retry False that(3) show ?thesis by auto
    next
      case True
      with retry have "sz' = BUF_SIZE \<or> sz' = len" using retry_size' [of e len _ sz' tr'] by simp
      then have "x_size \<lparr>x_n = len, x_size = sz', x_round = 0, x_tr = tr'\<rparr> = BUF_SIZE \<or>
          x_n \<lparr>x_n = len, x_size = sz', x_round = 0, x_tr = tr'\<rparr> <=s
          x_size \<lparr>x_n = len, x_size = sz', x_round = 0, x_tr = tr'\<rparr>"
        by auto
      then obtain r where r: "file_to_flash_loop e fd
            \<lparr>x_n = len, x_size = sz', x_round = 0, x_tr = tr'\<rparr> = Some r"
          "\<not> is_Continue r"
        using file_to_flash_loop_total by blast
      show ?thesis
      proof (cases r)
        case (Continue st')
        with r show ?thesis by simp
      next
        case (Break st')
        with seek fopen retry True r have "file_to_flash e fd offset len f =
           Some (0, x_tr st' @ [Free, Fclose, Stdout (write_summary len offset f)])"
          by (simp add: file_to_flash_def write_summary_def Let_def)
        with seek fopen retry True r Break that(5) show ?thesis by auto
      next
        case (Fail st')
        with seek fopen retry True r have "file_to_flash e fd offset len f = Some (1, x_tr st')"
          by (simp add: file_to_flash_def Let_def)
        with seek fopen retry True r Fail that(4) show ?thesis by auto
      qed
    qed
  qed
qed

lemma copy_event_not:
  "copy_event ev \<Longrightarrow> \<not> is_Malloc ev \<and> \<not> is_Stdout ev \<and> \<not> is_Open ev"
  by (cases ev) auto

lemma copy_events_filter:
  "list_all copy_event evs \<Longrightarrow>
   filter is_Malloc evs = [] \<and> filter is_Stdout evs = [] \<and> filter is_Open evs = []"
  by (induction evs) (auto dest: copy_event_not)

lemma file_to_flash_retry_no_fread:
  assumes "file_to_flash_retry e sz tr = (ok, sz', tr')"
      and "Perror ''fread()'' \<notin> set tr"
  shows "Perror ''fread()'' \<notin> set tr'"
  using assms by (auto simp: file_to_flash_retry_cases split: if_splits)

subsection \<open>A source file shorter than the length\<close>

text \<open>
  Claim C7. In the file-to-device loop, when \<open>fread\<close> does not deliver the chunk
  requested, the loop ends in that round with the diagnostics of the failed read and the
  release of the buffer and the file, and with no write to the device. Whenever
  \<open>file_to_flash\<close> reports the failed read (\<open>perror("fread()")\<close>), it returns 1, and its
  trace ends with the failed \<open>fread\<close>, the two diagnostics, \<open>free\<close> and \<open>fclose\<close>: every
  write to the device came before the failed read.
\<close>

theorem short_file_fails_before_write:
  "(sys_fread e (x_round st) (chunk st) \<noteq> 1 \<longrightarrow>
      file_to_flash_loop e fd st =
        Some (Fail (st\<lparr>x_size := chunk st,
                        x_tr := x_tr st @ [Fread (chunk st),
                                           Stderr (fread_msg (chunk st) (x_n st)),
                                           Perror ''fread()'', Free, Fclose]\<rparr>))) \<and>
   (file_to_flash e fd offset len f = Some (r, tr) \<and> Perror ''fread()'' \<in> set tr \<longrightarrow>
      r = 1 \<and> fread_failure tr)"
proof (rule conjI; rule impI)
  assume "sys_fread e (x_round st) (chunk st) \<noteq> 1"
  then show "file_to_flash_loop e fd st =
        Some (Fail (st\<lparr>x_size := chunk st,
                        x_tr := x_tr st @ [Fread (chunk st),
                                           Stderr (fread_msg (chunk st) (x_n st)),
                                           Perror ''fread()'', Free, Fclose]\<rparr>))"
    by (subst file_to_flash_loop.simps)
       (simp add: file_to_flash_body_def chunk_def [symmetric] fread_msg_def Let_def)
next
  assume a: "file_to_flash e fd offset len f = Some (r, tr) \<and> Perror ''fread()'' \<in> set tr"
  show "r = 1 \<and> fread_failure tr"
  proof (cases rule: file_to_flash_cases [of offset e fd len f])
    case seek
    with a show ?thesis by auto
  next
    case fopen
    with a show ?thesis by auto
  next
    case (nomem sz' tr')
    then have "Perror ''fread()'' \<notin> set tr'"
      using file_to_flash_retry_no_fread [of e len "[Lseek fd offset, Fopen f]" False sz' tr']
      by simp
    with a nomem show ?thesis by auto
  next
    case (failed sz' tr' st')
    then have "Perror ''fread()'' \<notin> set tr'"
      using file_to_flash_retry_no_fread [of e len "[Lseek fd offset, Fopen f]" True sz' tr']
      by simp
    with failed(4) have "Perror ''fread()'' \<in> set (x_tr st') \<longrightarrow> fread_failure (x_tr st')"
      using file_to_flash_loop_fread
        [of e fd "\<lparr>x_n = len, x_size = sz', x_round = 0, x_tr = tr'\<rparr>" "Fail st'"]
      by simp
    with a failed show ?thesis by auto
  next
    case (copied sz' tr' st')
    then have "Perror ''fread()'' \<notin> set tr'"
      using file_to_flash_retry_no_fread [of e len "[Lseek fd offset, Fopen f]" True sz' tr']
      by simp
    with copied(4) have "Perror ''fread()'' \<notin> set (x_tr st')"
      using file_to_flash_loop_fread
        [of e fd "\<lparr>x_n = len, x_size = sz', x_round = 0, x_tr = tr'\<rparr>" "Break st'"]
      by auto
    with a copied show ?thesis by auto
  qed
qed

theorem short_file_fails_before_write_witness:
  "sys_fread sys_short_file (x_round (st0\<lparr>x_round := 1\<rparr>)) (chunk (st0\<lparr>x_round := 1\<rparr>)) \<noteq> 1 \<and>
   file_to_flash_loop sys_short_file 3 (st0\<lparr>x_round := 1\<rparr>) =
     Some (Fail \<lparr>x_n = 131072, x_size = 65536, x_round = 1,
                 x_tr = [Fread 65536,
                         Stderr (''file_to_flash: fread, size 0x10000, n 0x20000'' @ nl),
                         Perror ''fread()'', Free, Fclose]\<rparr>) \<and>
   file_to_flash sys_short_file 3 0 131072 ''in.bin'' =
     Some (1, [Lseek 3 0, Fopen ''in.bin'', Malloc 131072,
               Stderr (''file_to_flash: malloc(0x20000) failed'' @ nl),
               Stderr (''file_to_flash: trying buffer size 0x10000'' @ nl),
               Malloc 65536, Fread 65536, Write 3 65536, Fread 65536,
               Stderr (''file_to_flash: fread, size 0x10000, n 0x10000'' @ nl),
               Perror ''fread()'', Free, Fclose]) \<and>
   fread_failure
     [Lseek 3 0, Fopen ''in.bin'', Malloc 131072,
      Stderr (''file_to_flash: malloc(0x20000) failed'' @ nl),
      Stderr (''file_to_flash: trying buffer size 0x10000'' @ nl),
      Malloc 65536, Fread 65536, Write 3 65536, Fread 65536,
      Stderr (''file_to_flash: fread, size 0x10000, n 0x10000'' @ nl),
      Perror ''fread()'', Free, Fclose]"
proof -
  let ?st = "st0\<lparr>x_round := 1\<rparr>"
  let ?tr = "[Lseek 3 0, Fopen ''in.bin'', Malloc 131072,
      Stderr (''file_to_flash: malloc(0x20000) failed'' @ nl),
      Stderr (''file_to_flash: trying buffer size 0x10000'' @ nl),
      Malloc 65536, Fread 65536, Write 3 65536, Fread 65536,
      Stderr (''file_to_flash: fread, size 0x10000, n 0x10000'' @ nl),
      Perror ''fread()'', Free, Fclose]"
  have c: "chunk ?st = 65536" by (simp add: chunk_def st0_def)
  have h: "sys_fread sys_short_file (x_round ?st) (chunk ?st) \<noteq> 1"
    by (simp add: c sys_short_file_def sys0_def)
  have run: "file_to_flash sys_short_file 3 0 131072 ''in.bin'' = Some (1, ?tr)"
    by (simp add: sys_short_file_def sys0_def run_eval fmt_eval)
  have m: "Perror ''fread()'' \<in> set ?tr" by simp
  have msg: "fread_msg 65536 131072 = ''file_to_flash: fread, size 0x10000, n 0x20000'' @ nl"
    by (simp add: fread_msg_def fmt_eval)
  note inst = short_file_fails_before_write [of sys_short_file ?st 3 0 131072 "''in.bin''" 1 ?tr]
  from inst h have "file_to_flash_loop sys_short_file 3 ?st =
      Some (Fail (?st\<lparr>x_size := chunk ?st,
                        x_tr := x_tr ?st @ [Fread (chunk ?st),
                                           Stderr (fread_msg (chunk ?st) (x_n ?st)),
                                           Perror ''fread()'', Free, Fclose]\<rparr>))"
    by blast
  then have l: "file_to_flash_loop sys_short_file 3 ?st =
     Some (Fail \<lparr>x_n = 131072, x_size = 65536, x_round = 1,
                 x_tr = [Fread 65536,
                         Stderr (''file_to_flash: fread, size 0x10000, n 0x20000'' @ nl),
                         Perror ''fread()'', Free, Fclose]\<rparr>)"
    by (simp add: chunk_def msg st0_def)
  from inst run m have "fread_failure ?tr" by blast
  with h l run show ?thesis by (intro conjI)
qed

subsection \<open>The staging buffer\<close>

lemma flash_to_file_retry_mallocs:
  assumes "flash_to_file_retry e len tr = (ok, sz', tr')"
      and "filter is_Malloc tr = []"
  shows "filter is_Malloc tr' = malloc_requests e len \<and> (ok \<longleftrightarrow> \<not> out_of_memory e len) \<and>
         (\<not> ok \<longrightarrow> Perror ''malloc()'' \<in> set tr')"
  using assms
  by (auto simp: flash_to_file_retry_cases malloc_requests_def out_of_memory_def BUF_SIZE_def
      split: if_splits)

lemma file_to_flash_retry_mallocs:
  assumes "file_to_flash_retry e len tr = (ok, sz', tr')"
      and "filter is_Malloc tr = []"
  shows "filter is_Malloc tr' = malloc_requests e len \<and> (ok \<longleftrightarrow> \<not> out_of_memory e len) \<and>
         (\<not> ok \<longrightarrow> Perror ''malloc()'' \<in> set tr')"
  using assms
  by (auto simp: file_to_flash_retry_cases malloc_requests_def out_of_memory_def BUF_SIZE_def
      split: if_splits)

lemma retry_no_io:
  "flash_to_file_retry e len tr = (ok, sz', tr') \<Longrightarrow>
     filter is_Read tr' = filter is_Read tr \<and> filter is_Write tr' = filter is_Write tr"
  "file_to_flash_retry e len tr = (ok, sz', tr') \<Longrightarrow>
     filter is_Write tr' = filter is_Write tr"
  by (auto simp: flash_to_file_retry_cases file_to_flash_retry_cases split: if_splits)

text \<open>
  Claim C3 as it stands fails for a length of exactly 64 KiB: when the first allocation
  of 65536 bytes fails, \<open>size != BUF_SIZE\<close> is false and the transfer ends at once, with
  one request in the trace and no second one.
\<close>

theorem fallback_at_64K_counterexample:
  "\<not> sys_malloc sys_no_memory 65536 \<and>
   flash_to_file sys_no_memory 3 0 65536 ''out.bin'' =
     Some (1, [Lseek 3 0, Creat ''out.bin'', Malloc 65536,
               Stderr (''flash_to_file: malloc(0x10000)'' @ nl), Perror ''malloc()'',
               Close 4, Free]) \<and>
   file_to_flash sys_no_memory 3 0 65536 ''in.bin'' =
     Some (1, [Lseek 3 0, Fopen ''in.bin'', Malloc 65536,
               Stderr (''file_to_flash: malloc(0x10000) failed'' @ nl), Perror ''malloc()'',
               Fclose])"
  by (simp add: sys_no_memory_def sys0_def run_eval fmt_eval)

text \<open>
  Claim C3, amended. For every length \<open>L\<close>, in either direction, a transfer that reaches
  the allocation first requests \<open>L\<close> bytes. If that fails and \<open>L\<close> is not 64 KiB, it
  requests exactly 64 KiB, once; if \<open>L\<close> is 64 KiB it makes no second request. No other
  size is requested. When no buffer was obtained the operation returns 1 after
  \<open>perror("malloc()")\<close>, and nothing was read from the device or written to it.
\<close>

theorem buffer_allocation_fallback:
  "(sys_lseek e offset = offset \<and> \<not> sys_creat e f <s 0 \<longrightarrow>
      (\<exists>r tr. flash_to_file e fd offset len f = Some (r, tr) \<and>
               filter is_Malloc tr = malloc_requests e len \<and>
               (out_of_memory e len \<longrightarrow>
                  r = 1 \<and> Perror ''malloc()'' \<in> set tr \<and> filter is_Read tr = []))) \<and>
   (sys_lseek e offset = offset \<and> sys_fopen e f \<longrightarrow>
      (\<exists>r tr. file_to_flash e fd offset len f = Some (r, tr) \<and>
               filter is_Malloc tr = malloc_requests e len \<and>
               (out_of_memory e len \<longrightarrow>
                  r = 1 \<and> Perror ''malloc()'' \<in> set tr \<and> filter is_Write tr = [])))"
proof (rule conjI; rule impI)
  assume a: "sys_lseek e offset = offset \<and> \<not> sys_creat e f <s 0"
  let ?tr0 = "[Lseek fd offset, Creat f]"
  show "\<exists>r tr. flash_to_file e fd offset len f = Some (r, tr) \<and>
               filter is_Malloc tr = malloc_requests e len \<and>
               (out_of_memory e len \<longrightarrow>
                  r = 1 \<and> Perror ''malloc()'' \<in> set tr \<and> filter is_Read tr = [])"
  proof (cases rule: flash_to_file_cases [of offset e fd len f])
    case seek
    with a show ?thesis by simp
  next
    case creat
    with a show ?thesis by simp
  next
    case (nomem sz' tr')
    from nomem(3) have "filter is_Malloc tr' = malloc_requests e len"
        "Perror ''malloc()'' \<in> set tr'" "filter is_Read tr' = []"
      using flash_to_file_retry_mallocs [of e len ?tr0 False sz' tr']
        retry_no_io(1) [of e len ?tr0 False sz' tr'] by simp_all
    with nomem(4) show ?thesis by simp
  next
    case (failed sz' tr' st')
    from failed(3) have m: "filter is_Malloc tr' = malloc_requests e len"
        "\<not> out_of_memory e len"
      using flash_to_file_retry_mallocs [of e len ?tr0 True sz' tr'] by simp_all
    from failed(4) obtain evs where "x_tr st' = tr' @ evs" "list_all copy_event evs"
      using flash_to_file_loop_trace by fastforce
    with m have "filter is_Malloc (x_tr st') = malloc_requests e len"
      using copy_events_filter [of evs] by simp
    with m failed(5) show ?thesis by simp
  next
    case (copied sz' tr' st')
    from copied(3) have m: "filter is_Malloc tr' = malloc_requests e len"
        "\<not> out_of_memory e len"
      using flash_to_file_retry_mallocs [of e len ?tr0 True sz' tr'] by simp_all
    from copied(4) obtain evs where "x_tr st' = tr' @ evs" "list_all copy_event evs"
      using flash_to_file_loop_trace by fastforce
    with m have "filter is_Malloc (x_tr st') = malloc_requests e len"
      using copy_events_filter [of evs] by simp
    with m copied(5) show ?thesis by simp
  qed
next
  assume a: "sys_lseek e offset = offset \<and> sys_fopen e f"
  let ?tr0 = "[Lseek fd offset, Fopen f]"
  show "\<exists>r tr. file_to_flash e fd offset len f = Some (r, tr) \<and>
               filter is_Malloc tr = malloc_requests e len \<and>
               (out_of_memory e len \<longrightarrow>
                  r = 1 \<and> Perror ''malloc()'' \<in> set tr \<and> filter is_Write tr = [])"
  proof (cases rule: file_to_flash_cases [of offset e fd len f])
    case seek
    with a show ?thesis by simp
  next
    case fopen
    with a show ?thesis by simp
  next
    case (nomem sz' tr')
    from nomem(3) have "filter is_Malloc tr' = malloc_requests e len"
        "Perror ''malloc()'' \<in> set tr'" "filter is_Write tr' = []"
      using file_to_flash_retry_mallocs [of e len ?tr0 False sz' tr']
        retry_no_io(2) [of e len ?tr0 False sz' tr'] by simp_all
    with nomem(4) show ?thesis by simp
  next
    case (failed sz' tr' st')
    from failed(3) have m: "filter is_Malloc tr' = malloc_requests e len"
        "\<not> out_of_memory e len"
      using file_to_flash_retry_mallocs [of e len ?tr0 True sz' tr'] by simp_all
    from failed(4) obtain evs where "x_tr st' = tr' @ evs" "list_all copy_event evs"
      using file_to_flash_loop_trace by fastforce
    with m have "filter is_Malloc (x_tr st') = malloc_requests e len"
      using copy_events_filter [of evs] by simp
    with m failed(5) show ?thesis by simp
  next
    case (copied sz' tr' st')
    from copied(3) have m: "filter is_Malloc tr' = malloc_requests e len"
        "\<not> out_of_memory e len"
      using file_to_flash_retry_mallocs [of e len ?tr0 True sz' tr'] by simp_all
    from copied(4) obtain evs where "x_tr st' = tr' @ evs" "list_all copy_event evs"
      using file_to_flash_loop_trace by fastforce
    with m have "filter is_Malloc (x_tr st') = malloc_requests e len"
      using copy_events_filter [of evs] by simp
    with m copied(5) show ?thesis by simp
  qed
qed

theorem buffer_allocation_fallback_witness:
  "sys_lseek sys_no_memory 0 = 0 \<and> \<not> sys_creat sys_no_memory ''data.bin'' <s 0 \<and>
   sys_fopen sys_no_memory ''data.bin'' \<and> out_of_memory sys_no_memory 131072 \<and>
   (\<exists>r tr. flash_to_file sys_no_memory 3 0 131072 ''data.bin'' = Some (r, tr) \<and>
            filter is_Malloc tr = [Malloc 131072, Malloc 65536] \<and> r = 1 \<and>
            filter is_Read tr = []) \<and>
   (\<exists>r tr. file_to_flash sys_no_memory 3 0 131072 ''data.bin'' = Some (r, tr) \<and>
            filter is_Malloc tr = [Malloc 131072, Malloc 65536] \<and> r = 1 \<and>
            filter is_Write tr = [])"
proof -
  have h1: "sys_lseek sys_no_memory 0 = 0 \<and> \<not> sys_creat sys_no_memory ''data.bin'' <s 0"
    by (simp add: sys_no_memory_def sys0_def word_sless_alt)
  have h2: "sys_lseek sys_no_memory 0 = 0 \<and> sys_fopen sys_no_memory ''data.bin''"
    by (simp add: sys_no_memory_def sys0_def)
  have oom: "out_of_memory sys_no_memory 131072"
    by (simp add: out_of_memory_def sys_no_memory_def sys0_def)
  have req: "malloc_requests sys_no_memory 131072 = [Malloc 131072, Malloc 65536]"
    by (simp add: malloc_requests_def sys_no_memory_def sys0_def)
  note inst = buffer_allocation_fallback
    [where e = sys_no_memory and offset = 0 and f = "''data.bin''" and fd = 3 and len = 131072]
  from inst h1 oom req
  have a: "\<exists>r tr. flash_to_file sys_no_memory 3 0 131072 ''data.bin'' = Some (r, tr) \<and>
            filter is_Malloc tr = [Malloc 131072, Malloc 65536] \<and> r = 1 \<and>
            filter is_Read tr = []"
    by (metis (no_types))
  from inst h2 oom req
  have b: "\<exists>r tr. file_to_flash sys_no_memory 3 0 131072 ''data.bin'' = Some (r, tr) \<and>
            filter is_Malloc tr = [Malloc 131072, Malloc 65536] \<and> r = 1 \<and>
            filter is_Write tr = []"
    by (metis (no_types))
  from h1 h2 oom a b show ?thesis by blast
qed

subsection \<open>Summaries and diagnostics\<close>

lemma flash_to_file_body_Fail_diag:
  assumes "flash_to_file_body e fd outfd f st = Fail st'"
  shows "\<exists>ev \<in> set (x_tr st'). is_diagnostic ev"
  using assms
  by (auto simp: flash_to_file_body_def Let_def split: if_splits)

lemma file_to_flash_body_Fail_diag:
  assumes "file_to_flash_body e fd st = Fail st'"
  shows "\<exists>ev \<in> set (x_tr st'). is_diagnostic ev"
  using file_to_flash_body_Fail [OF assms] by auto

lemma flash_to_file_loop_Fail_diag:
  assumes "flash_to_file_loop e fd outfd f st = Some r"
  shows "is_Fail r \<longrightarrow> (\<exists>ev \<in> set (x_tr (the_xfer r)). is_diagnostic ev)"
  using assms
proof (induction e fd outfd f st r rule: flash_to_file_loop.raw_induct)
  case (1 loop e fd outfd f st r)
  show ?case
  proof (cases "flash_to_file_body e fd outfd f st")
    case (Continue st')
    with 1(2) have l: "loop e fd outfd f st' = Some r" by simp
    from 1(3) Continue have "flash_to_file_loop e fd outfd f st' = Some r"
      by (subst (asm) flash_to_file_loop.simps) simp
    with 1(1) l show ?thesis by blast
  next
    case (Break st')
    with 1(2) show ?thesis by auto
  next
    case (Fail st')
    with 1(2) flash_to_file_body_Fail_diag [OF Fail] show ?thesis by auto
  qed
qed (rule assms)

lemma file_to_flash_loop_Fail_diag:
  assumes "file_to_flash_loop e fd st = Some r"
  shows "is_Fail r \<longrightarrow> (\<exists>ev \<in> set (x_tr (the_xfer r)). is_diagnostic ev)"
  using assms
proof (induction e fd st r rule: file_to_flash_loop.raw_induct)
  case (1 loop e fd st r)
  show ?case
  proof (cases "file_to_flash_body e fd st")
    case (Continue st')
    with 1(2) have l: "loop e fd st' = Some r" by simp
    from 1(3) Continue have "file_to_flash_loop e fd st' = Some r"
      by (subst (asm) file_to_flash_loop.simps) simp
    with 1(1) l show ?thesis by blast
  next
    case (Break st')
    with 1(2) show ?thesis by auto
  next
    case (Fail st')
    with 1(2) file_to_flash_body_Fail_diag [OF Fail] show ?thesis by auto
  qed
qed (rule assms)

lemma retry_no_stdout:
  "flash_to_file_retry e len tr = (ok, sz', tr') \<Longrightarrow>
     filter is_Stdout tr' = filter is_Stdout tr \<and> (\<not> ok \<longrightarrow> Perror ''malloc()'' \<in> set tr')"
  "file_to_flash_retry e len tr = (ok, sz', tr') \<Longrightarrow>
     filter is_Stdout tr' = filter is_Stdout tr \<and> (\<not> ok \<longrightarrow> Perror ''malloc()'' \<in> set tr')"
  by (auto simp: flash_to_file_retry_cases file_to_flash_retry_cases split: if_splits)

lemma flash_to_file_reports:
  assumes "flash_to_file e fd offset len f = Some (r, tr)"
  shows "reports r tr (read_summary len offset f)"
proof (cases rule: flash_to_file_cases [of offset e fd len f])
  case seek
  with assms show ?thesis by (auto simp: reports_def)
next
  case creat
  with assms show ?thesis by (auto simp: reports_def)
next
  case (nomem sz' tr')
  from nomem(3) have "filter is_Stdout tr' = []" "Perror ''malloc()'' \<in> set tr'"
    using retry_no_stdout(1) [of e len "[Lseek fd offset, Creat f]" False sz' tr'] by simp_all
  then have "filter is_Stdout tr' = []" "\<exists>ev \<in> set tr'. is_diagnostic ev"
    by (simp, intro bexI [of _ "Perror ''malloc()''"]) simp_all
  with assms nomem(4) show ?thesis by (auto simp: reports_def)
next
  case (failed sz' tr' st')
  from failed(3) have s: "filter is_Stdout tr' = []"
    using retry_no_stdout(1) [of e len "[Lseek fd offset, Creat f]" True sz' tr'] by simp
  from failed(4) obtain evs where "x_tr st' = tr' @ evs" "list_all copy_event evs"
    using flash_to_file_loop_trace by fastforce
  with s have "filter is_Stdout (x_tr st') = []" using copy_events_filter [of evs] by simp
  moreover from failed(4) have "\<exists>ev \<in> set (x_tr st'). is_diagnostic ev"
    using flash_to_file_loop_Fail_diag by fastforce
  ultimately show ?thesis using assms failed(5) by (auto simp: reports_def)
next
  case (copied sz' tr' st')
  from copied(3) have s: "filter is_Stdout tr' = []"
    using retry_no_stdout(1) [of e len "[Lseek fd offset, Creat f]" True sz' tr'] by simp
  from copied(4) obtain evs where "x_tr st' = tr' @ evs" "list_all copy_event evs"
    using flash_to_file_loop_trace by fastforce
  with s have "filter is_Stdout (x_tr st') = []" using copy_events_filter [of evs] by simp
  with assms copied(5) show ?thesis by (auto simp: reports_def)
qed

lemma file_to_flash_reports:
  assumes "file_to_flash e fd offset len f = Some (r, tr)"
  shows "reports r tr (write_summary len offset f)"
proof (cases rule: file_to_flash_cases [of offset e fd len f])
  case seek
  with assms show ?thesis by (auto simp: reports_def)
next
  case fopen
  with assms show ?thesis by (auto simp: reports_def)
next
  case (nomem sz' tr')
  from nomem(3) have "filter is_Stdout tr' = []" "Perror ''malloc()'' \<in> set tr'"
    using retry_no_stdout(2) [of e len "[Lseek fd offset, Fopen f]" False sz' tr'] by simp_all
  then have "filter is_Stdout tr' = []" "\<exists>ev \<in> set tr'. is_diagnostic ev"
    by (simp, intro bexI [of _ "Perror ''malloc()''"]) simp_all
  with assms nomem(4) show ?thesis by (auto simp: reports_def)
next
  case (failed sz' tr' st')
  from failed(3) have s: "filter is_Stdout tr' = []"
    using retry_no_stdout(2) [of e len "[Lseek fd offset, Fopen f]" True sz' tr'] by simp
  from failed(4) obtain evs where "x_tr st' = tr' @ evs" "list_all copy_event evs"
    using file_to_flash_loop_trace by fastforce
  with s have "filter is_Stdout (x_tr st') = []" using copy_events_filter [of evs] by simp
  moreover from failed(4) have "\<exists>ev \<in> set (x_tr st'). is_diagnostic ev"
    using file_to_flash_loop_Fail_diag by fastforce
  ultimately show ?thesis using assms failed(5) by (auto simp: reports_def)
next
  case (copied sz' tr' st')
  from copied(3) have s: "filter is_Stdout tr' = []"
    using retry_no_stdout(2) [of e len "[Lseek fd offset, Fopen f]" True sz' tr'] by simp
  from copied(4) obtain evs where "x_tr st' = tr' @ evs" "list_all copy_event evs"
    using file_to_flash_loop_trace by fastforce
  with s have "filter is_Stdout (x_tr st') = []" using copy_events_filter [of evs] by simp
  with assms copied(5) show ?thesis by (auto simp: reports_def)
qed

text \<open>
  Claim C5 as it stands fails for erase: a successful \<open>erase_flash\<close> writes its summary
  with \<open>fprintf(stderr, ...)\<close>, and nothing to the standard output.
\<close>

theorem erase_summary_on_stdout_counterexample:
  "erase_flash sys0 3 0x10000 0x10000 =
     (0, [Ioctl_MEMERASE 3 \<lparr>erase_start = 0x10000, erase_length = 0x10000\<rparr>,
          Stderr (''Erased 65536 bytes from address 0x00010000 in flash'' @ nl)]) \<and>
   filter is_Stdout (snd (erase_flash sys0 3 0x10000 0x10000)) = []"
  by (simp add: erase_flash_def sys0_def Let_def word_sless_alt fmt_eval)

lemma reports_success:
  "reports 0 tr summary \<Longrightarrow> Stdout summary \<in> set tr"
proof -
  assume "reports 0 tr summary"
  then have "filter is_Stdout tr = [Stdout summary]" by (simp add: reports_def)
  then have "Stdout summary \<in> set (filter is_Stdout tr)" by simp
  then show ?thesis by simp
qed

lemma reports_failure:
  "reports r tr summary \<Longrightarrow> r \<noteq> 0 \<Longrightarrow> \<exists>ev \<in> set tr. is_diagnostic ev"
  by (simp add: reports_def)

lemma banner_not_erase_summary:
  "banner ''mtd_debug_erase'' mtd_dev start bytes \<noteq> Stdout (erase_summary bytes' start')"
  by (simp add: banner_def erase_summary_def)

lemma mtd_debug_read_reports:
  assumes "mtd_debug_read e mtd_dev offset len f = Some (out, tr)"
  shows "(out = Returned 0 \<longrightarrow> Stdout (read_summary len (uint offset) f) \<in> set tr) \<and>
         (out \<noteq> Returned 0 \<longrightarrow> (\<exists>ev \<in> set tr. is_diagnostic ev))"
proof (cases "mtd_find_dev_node e mtd_dev")
  case None
  with assms show ?thesis by (auto simp: mtd_debug_read_def errmsg_die_def Let_def)
next
  case (Some dev)
  show ?thesis
  proof (cases "sys_open e dev O_RDONLY <s 0")
    case True
    with Some assms show ?thesis by (auto simp: mtd_debug_read_def errmsg_die_def Let_def)
  next
    case False
    obtain err tr' where op: "flash_to_file e (sys_open e dev O_RDONLY) (uint offset) len f =
        Some (err, tr')"
      using Some False assms
      by (cases "flash_to_file e (sys_open e dev O_RDONLY) (uint offset) len f")
         (auto simp: mtd_debug_read_def Let_def)
    then have rep: "reports err tr' (read_summary len (uint offset) f)"
      by (rule flash_to_file_reports)
    show ?thesis
    proof (cases "sys_close e (sys_open e dev O_RDONLY) <s 0")
      case True
      with Some False op assms show ?thesis
        by (auto simp: mtd_debug_read_def errmsg_die_def Let_def)
    next
      case cl: False
      with Some False op assms have o: "out = Returned err"
          "tr = [banner ''mtd_debug_read'' mtd_dev offset len, Open dev O_RDONLY] @ tr' @
                [Close (sys_open e dev O_RDONLY)]"
        by (auto simp: mtd_debug_read_def errmsg_die_def Let_def)
      show ?thesis
      proof (cases "err = 0")
        case True
        with rep have "Stdout (read_summary len (uint offset) f) \<in> set tr'"
          using reports_success by blast
        with o True show ?thesis by simp
      next
        case False
        with rep have "\<exists>ev \<in> set tr'. is_diagnostic ev" by (rule reports_failure)
        with o False show ?thesis by auto
      qed
    qed
  qed
qed

lemma mtd_debug_write_reports:
  assumes "mtd_debug_write e mtd_dev offset len f = Some (out, tr)"
  shows "(out = Returned 0 \<longrightarrow> Stdout (write_summary len (uint offset) f) \<in> set tr) \<and>
         (out \<noteq> Returned 0 \<longrightarrow> (\<exists>ev \<in> set tr. is_diagnostic ev))"
proof (cases "mtd_find_dev_node e mtd_dev")
  case None
  with assms show ?thesis by (auto simp: mtd_debug_write_def errmsg_die_def Let_def)
next
  case (Some dev)
  show ?thesis
  proof (cases "sys_open e dev O_RDWR <s 0")
    case True
    with Some assms show ?thesis by (auto simp: mtd_debug_write_def errmsg_die_def Let_def)
  next
    case False
    obtain err tr' where op: "file_to_flash e (sys_open e dev O_RDWR) (uint offset) len f =
        Some (err, tr')"
      using Some False assms
      by (cases "file_to_flash e (sys_open e dev O_RDWR) (uint offset) len f")
         (auto simp: mtd_debug_write_def Let_def)
    then have rep: "reports err tr' (write_summary len (uint offset) f)"
      by (rule file_to_flash_reports)
    show ?thesis
    proof (cases "sys_close e (sys_open e dev O_RDWR) <s 0")
      case True
      with Some False op assms show ?thesis
        by (auto simp: mtd_debug_write_def errmsg_die_def Let_def)
    next
      case cl: False
      with Some False op assms have o: "out = Returned err"
          "tr = [banner ''mtd_debug_write'' mtd_dev offset len, Open dev O_RDWR] @ tr' @
                [Close (sys_open e dev O_RDWR)]"
        by (auto simp: mtd_debug_write_def errmsg_die_def Let_def)
      show ?thesis
      proof (cases "err = 0")
        case True
        with rep have "Stdout (write_summary len (uint offset) f) \<in> set tr'"
          using reports_success by blast
        with o True show ?thesis by simp
      next
        case False
        with rep have "\<exists>ev \<in> set tr'. is_diagnostic ev" by (rule reports_failure)
        with o False show ?thesis by auto
      qed
    qed
  qed
qed

lemma erase_flash_reports:
  assumes "erase_flash e fd start bytes = (r, tr)"
  shows "(r = 0 \<longrightarrow> Stderr (erase_summary bytes start) \<in> set tr \<and>
                   Stdout (erase_summary bytes start) \<notin> set tr) \<and>
         (r \<noteq> 0 \<longrightarrow> (\<exists>ev \<in> set tr. is_diagnostic ev))"
  using assms by (auto simp: erase_flash_def erase_summary_def Let_def split: if_splits)

lemma mtd_debug_erase_reports:
  assumes "mtd_debug_erase e mtd_dev start bytes = (out, tr)"
  shows "(out = Returned 0 \<longrightarrow> Stderr (erase_summary bytes start) \<in> set tr \<and>
                   Stdout (erase_summary bytes start) \<notin> set tr) \<and>
         (out \<noteq> Returned 0 \<longrightarrow> (\<exists>ev \<in> set tr. is_diagnostic ev))"
proof (cases "mtd_find_dev_node e mtd_dev")
  case None
  with assms show ?thesis by (auto simp: mtd_debug_erase_def errmsg_die_def Let_def)
next
  case (Some dev)
  show ?thesis
  proof (cases "sys_open e dev O_RDWR <s 0")
    case True
    with Some assms show ?thesis by (auto simp: mtd_debug_erase_def errmsg_die_def Let_def)
  next
    case False
    obtain err tr' where op: "erase_flash e (sys_open e dev O_RDWR) start bytes = (err, tr')"
      by (cases "erase_flash e (sys_open e dev O_RDWR) start bytes")
    note rep = erase_flash_reports [OF op]
    show ?thesis
    proof (cases "sys_close e (sys_open e dev O_RDWR) <s 0")
      case True
      with Some False op assms show ?thesis
        by (auto simp: mtd_debug_erase_def errmsg_die_def Let_def)
    next
      case cl: False
      with Some False op assms have o: "out = Returned err"
          "tr = [banner ''mtd_debug_erase'' mtd_dev start bytes, Open dev O_RDWR] @ tr' @
                [Close (sys_open e dev O_RDWR)]"
        by (auto simp: mtd_debug_erase_def errmsg_die_def Let_def)
      show ?thesis
      proof (cases "err = 0")
        case True
        with rep have "Stderr (erase_summary bytes start) \<in> set tr'"
            "Stdout (erase_summary bytes start) \<notin> set tr'" by simp_all
        with o True show ?thesis
          using banner_not_erase_summary [of mtd_dev start bytes bytes start] by auto
      next
        case False
        with rep have "\<exists>ev \<in> set tr'. is_diagnostic ev" by simp
        with o False show ?thesis by auto
      qed
    qed
  qed
qed

text \<open>
  Claim C5, amended. Every successful read-out or write-in writes its one-line
  confirmation summary to the standard output stream, and every failed operation
  writes at least one message to the diagnostic stream; a successful erase writes its
  summary of the bytes erased and the start address to the diagnostic stream and not to
  the standard output. This holds of the three operations and of the three commands
  that call them, where an operation succeeded when it returned 0 and a command when it
  returned 0 to its caller.
\<close>

theorem summaries_and_diagnostics:
  "(flash_to_file e fd offset len f = Some (r, tr) \<longrightarrow>
      (r = 0 \<longrightarrow> Stdout (read_summary len offset f) \<in> set tr) \<and>
      (r \<noteq> 0 \<longrightarrow> (\<exists>ev \<in> set tr. is_diagnostic ev))) \<and>
   (file_to_flash e fd offset len f = Some (r, tr) \<longrightarrow>
      (r = 0 \<longrightarrow> Stdout (write_summary len offset f) \<in> set tr) \<and>
      (r \<noteq> 0 \<longrightarrow> (\<exists>ev \<in> set tr. is_diagnostic ev))) \<and>
   (erase_flash e fd start bytes = (r, tr) \<longrightarrow>
      (r = 0 \<longrightarrow> Stderr (erase_summary bytes start) \<in> set tr \<and>
                Stdout (erase_summary bytes start) \<notin> set tr) \<and>
      (r \<noteq> 0 \<longrightarrow> (\<exists>ev \<in> set tr. is_diagnostic ev))) \<and>
   (mtd_debug_read e mtd_dev start bytes f = Some (out, ctr) \<longrightarrow>
      (out = Returned 0 \<longrightarrow> Stdout (read_summary bytes (uint start) f) \<in> set ctr) \<and>
      (out \<noteq> Returned 0 \<longrightarrow> (\<exists>ev \<in> set ctr. is_diagnostic ev))) \<and>
   (mtd_debug_write e mtd_dev start bytes f = Some (out, ctr) \<longrightarrow>
      (out = Returned 0 \<longrightarrow> Stdout (write_summary bytes (uint start) f) \<in> set ctr) \<and>
      (out \<noteq> Returned 0 \<longrightarrow> (\<exists>ev \<in> set ctr. is_diagnostic ev))) \<and>
   (mtd_debug_erase e mtd_dev start bytes = (out, ctr) \<longrightarrow>
      (out = Returned 0 \<longrightarrow> Stderr (erase_summary bytes start) \<in> set ctr \<and>
                         Stdout (erase_summary bytes start) \<notin> set ctr) \<and>
      (out \<noteq> Returned 0 \<longrightarrow> (\<exists>ev \<in> set ctr. is_diagnostic ev)))"
proof (intro conjI)
  show "flash_to_file e fd offset len f = Some (r, tr) \<longrightarrow>
      (r = 0 \<longrightarrow> Stdout (read_summary len offset f) \<in> set tr) \<and>
      (r \<noteq> 0 \<longrightarrow> (\<exists>ev \<in> set tr. is_diagnostic ev))"
    using flash_to_file_reports [of e fd offset len f r tr]
      reports_success [of tr "read_summary len offset f"]
      reports_failure [of r tr "read_summary len offset f"]
    by blast
next
  show "file_to_flash e fd offset len f = Some (r, tr) \<longrightarrow>
      (r = 0 \<longrightarrow> Stdout (write_summary len offset f) \<in> set tr) \<and>
      (r \<noteq> 0 \<longrightarrow> (\<exists>ev \<in> set tr. is_diagnostic ev))"
    using file_to_flash_reports [of e fd offset len f r tr]
      reports_success [of tr "write_summary len offset f"]
      reports_failure [of r tr "write_summary len offset f"]
    by blast
next
  show "erase_flash e fd start bytes = (r, tr) \<longrightarrow>
      (r = 0 \<longrightarrow> Stderr (erase_summary bytes start) \<in> set tr \<and>
                Stdout (erase_summary bytes start) \<notin> set tr) \<and>
      (r \<noteq> 0 \<longrightarrow> (\<exists>ev \<in> set tr. is_diagnostic ev))"
    using erase_flash_reports [of e fd start bytes r tr] by blast
next
  show "mtd_debug_read e mtd_dev start bytes f = Some (out, ctr) \<longrightarrow>
      (out = Returned 0 \<longrightarrow> Stdout (read_summary bytes (uint start) f) \<in> set ctr) \<and>
      (out \<noteq> Returned 0 \<longrightarrow> (\<exists>ev \<in> set ctr. is_diagnostic ev))"
    using mtd_debug_read_reports [of e mtd_dev start bytes f out ctr] by blast
next
  show "mtd_debug_write e mtd_dev start bytes f = Some (out, ctr) \<longrightarrow>
      (out = Returned 0 \<longrightarrow> Stdout (write_summary bytes (uint start) f) \<in> set ctr) \<and>
      (out \<noteq> Returned 0 \<longrightarrow> (\<exists>ev \<in> set ctr. is_diagnostic ev))"
    using mtd_debug_write_reports [of e mtd_dev start bytes f out ctr] by blast
next
  show "mtd_debug_erase e mtd_dev start bytes = (out, ctr) \<longrightarrow>
      (out = Returned 0 \<longrightarrow> Stderr (erase_summary bytes start) \<in> set ctr \<and>
                         Stdout (erase_summary bytes start) \<notin> set ctr) \<and>
      (out \<noteq> Returned 0 \<longrightarrow> (\<exists>ev \<in> set ctr. is_diagnostic ev))"
    using mtd_debug_erase_reports [of e mtd_dev start bytes out ctr] by blast
qed

theorem summaries_and_diagnostics_witness:
  "mtd_debug_read sys0 ''mtd0'' 65536 16 ''data.bin'' =
     Some (Returned 0,
           [Stdout (''mtd_debug_read mtd0 10000 10'' @ nl), Open ''/dev/mtd0'' O_RDONLY,
            Lseek 3 65536, Creat ''data.bin'', Malloc 16, Read 3 16, Write 4 16, Free, Close 4,
            Stdout (''Copied 16 bytes from address 0x00010000 in flash to data.bin'' @ nl),
            Close 3]) \<and>
   Stdout (read_summary 16 (uint (65536 :: u32)) ''data.bin'') \<in>
     set [Stdout (''mtd_debug_read mtd0 10000 10'' @ nl), Open ''/dev/mtd0'' O_RDONLY,
          Lseek 3 65536, Creat ''data.bin'', Malloc 16, Read 3 16, Write 4 16, Free, Close 4,
          Stdout (''Copied 16 bytes from address 0x00010000 in flash to data.bin'' @ nl),
          Close 3] \<and>
   file_to_flash sys_no_memory 3 65536 16 ''data.bin'' =
     Some (1, [Lseek 3 65536, Fopen ''data.bin'', Malloc 16,
               Stderr (''file_to_flash: malloc(0x10) failed'' @ nl),
               Stderr (''file_to_flash: trying buffer size 0x10000'' @ nl),
               Malloc 65536,
               Stderr (''file_to_flash: malloc(0x10000) failed'' @ nl),
               Perror ''malloc()'', Fclose]) \<and>
   (\<exists>ev \<in> set [Lseek 3 65536, Fopen ''data.bin'', Malloc 16,
               Stderr (''file_to_flash: malloc(0x10) failed'' @ nl),
               Stderr (''file_to_flash: trying buffer size 0x10000'' @ nl),
               Malloc 65536,
               Stderr (''file_to_flash: malloc(0x10000) failed'' @ nl),
               Perror ''malloc()'', Fclose]. is_diagnostic ev) \<and>
   mtd_debug_erase sys0 ''mtd0'' 65536 65536 =
     (Returned 0,
      [Stdout (''mtd_debug_erase mtd0 10000 10000'' @ nl), Open ''/dev/mtd0'' O_RDWR,
       Ioctl_MEMERASE 3 \<lparr>erase_start = 65536, erase_length = 65536\<rparr>,
       Stderr (''Erased 65536 bytes from address 0x00010000 in flash'' @ nl), Close 3]) \<and>
   Stderr (erase_summary 65536 65536) \<in>
     set [Stdout (''mtd_debug_erase mtd0 10000 10000'' @ nl), Open ''/dev/mtd0'' O_RDWR,
          Ioctl_MEMERASE 3 \<lparr>erase_start = 65536, erase_length = 65536\<rparr>,
          Stderr (''Erased 65536 bytes from address 0x00010000 in flash'' @ nl), Close 3] \<and>
   Stdout (erase_summary 65536 65536) \<notin>
     set [Stdout (''mtd_debug_erase mtd0 10000 10000'' @ nl), Open ''/dev/mtd0'' O_RDWR,
          Ioctl_MEMERASE 3 \<lparr>erase_start = 65536, erase_length = 65536\<rparr>,
          Stderr (''Erased 65536 bytes from address 0x00010000 in flash'' @ nl), Close 3]"
proof -
  let ?cr = "[Stdout (''mtd_debug_read mtd0 10000 10'' @ nl), Open ''/dev/mtd0'' O_RDONLY,
            Lseek 3 65536, Creat ''data.bin'', Malloc 16, Read 3 16, Write 4 16, Free, Close 4,
            Stdout (''Copied 16 bytes from address 0x00010000 in flash to data.bin'' @ nl),
            Close 3]"
  let ?tw = "[Lseek 3 65536, Fopen ''data.bin'', Malloc 16,
               Stderr (''file_to_flash: malloc(0x10) failed'' @ nl),
               Stderr (''file_to_flash: trying buffer size 0x10000'' @ nl),
               Malloc 65536,
               Stderr (''file_to_flash: malloc(0x10000) failed'' @ nl),
               Perror ''malloc()'', Fclose]"
  let ?ce = "[Stdout (''mtd_debug_erase mtd0 10000 10000'' @ nl), Open ''/dev/mtd0'' O_RDWR,
       Ioctl_MEMERASE 3 \<lparr>erase_start = 65536, erase_length = 65536\<rparr>,
       Stderr (''Erased 65536 bytes from address 0x00010000 in flash'' @ nl), Close 3]"
  have r: "mtd_debug_read sys0 ''mtd0'' 65536 16 ''data.bin'' = Some (Returned 0, ?cr)"
    by (simp add: mtd_debug_read_def banner_def errmsg_die_def sys0_def run_eval fmt_eval)
  have w: "file_to_flash sys_no_memory 3 65536 16 ''data.bin'' = Some (1, ?tw)"
    by (simp add: sys_no_memory_def sys0_def run_eval fmt_eval)
  have e: "mtd_debug_erase sys0 ''mtd0'' 65536 65536 = (Returned 0, ?ce)"
    by (simp add: mtd_debug_erase_def erase_flash_def banner_def errmsg_die_def sys0_def
        Let_def word_sless_alt fmt_eval)
  from r summaries_and_diagnostics
    [where e = sys0 and mtd_dev = "''mtd0''" and start = 65536 and bytes = 16
       and f = "''data.bin''" and out = "Returned 0" and ctr = ?cr]
  have a: "Stdout (read_summary 16 (uint (65536 :: u32)) ''data.bin'') \<in> set ?cr" by blast
  from w summaries_and_diagnostics
    [where e = sys_no_memory and fd = 3 and offset = 65536 and len = 16
       and f = "''data.bin''" and r = 1 and tr = ?tw]
  have b: "\<exists>ev \<in> set ?tw. is_diagnostic ev" by simp
  from e summaries_and_diagnostics
    [where e = sys0 and mtd_dev = "''mtd0''" and start = 65536 and bytes = 65536
       and out = "Returned 0" and ctr = ?ce]
  have c: "Stderr (erase_summary 65536 65536) \<in> set ?ce"
      "Stdout (erase_summary 65536 65536) \<notin> set ?ce" by blast+
  from r a w b e c show ?thesis by (intro conjI)
qed

subsection \<open>Region enumeration\<close>

lemma answered_0: "answered e R 0 = R"
  by (simp add: answered_def map_nth)

lemma length_answered: "length (answered e R k) = length R"
  by (simp add: answered_def)

lemma answered_nth:
  "j < length R \<Longrightarrow>
   answered e R k ! j = (if j < k then snd (sys_regioninfo e (region_query R j)) else R ! j)"
  by (simp add: answered_def)

lemma answered_Suc:
  assumes "k < length R"
  shows "(answered e R k)[k := snd (sys_regioninfo e (region_query R k))] = answered e R (Suc k)"
  using assms
  by (intro nth_equalityI) (auto simp: length_answered answered_nth nth_list_update)

lemma getregions_loop_step:
  assumes "k < nat (sint n)" and "k < length R"
  shows "getregions_loop e fd (answered e R k) n k tr =
     (if fst (sys_regioninfo e (region_query R k)) \<noteq> 0
      then Inr (fst (sys_regioninfo e (region_query R k)), answered e R (Suc k),
                tr @ [Ioctl_MEMGETREGIONINFO fd (region_query R k)])
      else getregions_loop e fd (answered e R (Suc k)) n (Suc k)
             (tr @ [Ioctl_MEMGETREGIONINFO fd (region_query R k)]))"
proof -
  from assms have lt: "int k < sint n" by linarith
  have q: "(answered e R k ! k)\<lparr>regionindex := of_nat k\<rparr> = region_query R k"
    using assms by (simp add: answered_nth region_query_def)
  show ?thesis
    using lt assms(2) answered_Suc [OF assms(2), of e]
    by (subst getregions_loop.simps)
       (auto simp: length_answered q Let_def split: prod.split)
qed

lemma getregions_loop_prefix:
  assumes "i \<le> k" and "k \<le> nat (sint n)" and "nat (sint n) \<le> length R"
      and "\<forall>j. i \<le> j \<and> j < k \<longrightarrow> fst (sys_regioninfo e (region_query R j)) = 0"
  shows "getregions_loop e fd (answered e R i) n i tr =
         getregions_loop e fd (answered e R k) n k
           (tr @ map (\<lambda>j. Ioctl_MEMGETREGIONINFO fd (region_query R j)) [i..<k])"
  using assms
proof (induction k rule: dec_induct)
  case base
  show ?case by simp
next
  case (step m)
  then have "getregions_loop e fd (answered e R i) n i tr =
         getregions_loop e fd (answered e R m) n m
           (tr @ map (\<lambda>j. Ioctl_MEMGETREGIONINFO fd (region_query R j)) [i..<m])"
    by simp
  moreover from step have "m < nat (sint n)" "m < length R"
      "fst (sys_regioninfo e (region_query R m)) = 0" by simp_all
  ultimately show ?case
    using \<open>i \<le> m\<close> by (simp add: getregions_loop_step)
qed

lemma getregions_loop_end:
  "getregions_loop e fd regions n (nat (sint n)) tr = Inr (0, regions, tr)"
  by (subst getregions_loop.simps) simp

lemma getregions_all:
  assumes c: "sys_regioncount e = (0, n)"
      and cap: "nat (sint n) \<le> length R"
      and ok: "\<forall>j < nat (sint n). fst (sys_regioninfo e (region_query R j)) = 0"
  shows "getregions e fd R =
     Inr (0, answered e R (nat (sint n)), n,
          Ioctl_MEMGETREGIONCOUNT fd #
          map (\<lambda>j. Ioctl_MEMGETREGIONINFO fd (region_query R j)) [0..<nat (sint n)])"
proof -
  have "getregions_loop e fd (answered e R 0) n 0 [Ioctl_MEMGETREGIONCOUNT fd] =
        getregions_loop e fd (answered e R (nat (sint n))) n (nat (sint n))
          ([Ioctl_MEMGETREGIONCOUNT fd] @
           map (\<lambda>j. Ioctl_MEMGETREGIONINFO fd (region_query R j)) [0..<nat (sint n)])"
    using cap ok by (intro getregions_loop_prefix) simp_all
  then show ?thesis using c
    by (simp add: getregions_def answered_0 getregions_loop_end)
qed

lemma getregions_first_failure:
  assumes c: "sys_regioncount e = (0, n)"
      and k: "k < nat (sint n)"
      and cap: "nat (sint n) \<le> length R"
      and ok: "\<forall>j < k. fst (sys_regioninfo e (region_query R j)) = 0"
      and bad: "fst (sys_regioninfo e (region_query R k)) \<noteq> 0"
  shows "getregions e fd R =
     Inr (fst (sys_regioninfo e (region_query R k)), answered e R (Suc k), n,
          Ioctl_MEMGETREGIONCOUNT fd #
          map (\<lambda>j. Ioctl_MEMGETREGIONINFO fd (region_query R j)) [0..<Suc k])"
proof -
  have "getregions_loop e fd (answered e R 0) n 0 [Ioctl_MEMGETREGIONCOUNT fd] =
        getregions_loop e fd (answered e R k) n k
          ([Ioctl_MEMGETREGIONCOUNT fd] @
           map (\<lambda>j. Ioctl_MEMGETREGIONINFO fd (region_query R j)) [0..<k])"
    using k cap ok by (intro getregions_loop_prefix) simp_all
  moreover from k cap have "k < length R" by simp
  ultimately show ?thesis using c k bad
    by (simp add: getregions_def answered_0 getregions_loop_step)
qed

text \<open>
  Claim C6 as it stands fails: a device reports two regions and fails the query for
  region 0. The enumeration stops there, after one per-region query, not two.
\<close>

theorem failing_region_query_counterexample:
  "sys_regioncount sys_region_fail = (0, 2) \<and>
   getregions sys_region_fail 3 (replicate 1024 zero_region) =
     Inr (- 1, (replicate 1024 zero_region)[0 := zero_region], 2,
          [Ioctl_MEMGETREGIONCOUNT 3, Ioctl_MEMGETREGIONINFO 3 zero_region])"
  by (simp add: sys_region_fail_def sys0_def getregions_def getregions_loop.simps
      zero_region_def Let_def)

text \<open>
  Claim C6, amended. The region-count query comes first. If it fails, no per-region
  query is issued. A count of 0 gives no per-region query and leaves the table as it
  was. For a count \<open>N > 0\<close> within the capacity of the table: if every per-region query
  succeeds, exactly \<open>N\<close> queries are issued, in order, the query at position \<open>j\<close> with
  \<open>regionindex = j\<close>, and the first \<open>N\<close> entries of the table are their answers, whose
  \<open>regionindex\<close> is their position when the device leaves that field as it was passed;
  if the query at position \<open>k\<close> is the first to fail, the enumeration ends with its
  error after \<open>k + 1\<close> queries.
\<close>

theorem region_enumeration:
  "(sys_regioncount e = (err, n) \<and> err \<noteq> 0 \<longrightarrow>
      getregions e fd R = Inr (err, R, n, [Ioctl_MEMGETREGIONCOUNT fd])) \<and>
   (sys_regioncount e = (0, 0) \<longrightarrow>
      getregions e fd R = Inr (0, R, 0, [Ioctl_MEMGETREGIONCOUNT fd])) \<and>
   (sys_regioncount e = (0, n) \<and> 0 <s n \<and> nat (sint n) \<le> length R \<and>
    (\<forall>j < nat (sint n). fst (sys_regioninfo e (region_query R j)) = 0) \<longrightarrow>
      getregions e fd R =
        Inr (0, answered e R (nat (sint n)), n,
             Ioctl_MEMGETREGIONCOUNT fd #
             map (\<lambda>j. Ioctl_MEMGETREGIONINFO fd (region_query R j)) [0..<nat (sint n)]) \<and>
      (\<forall>j < nat (sint n).
         regionindex (region_query R j) = of_nat j \<and>
         answered e R (nat (sint n)) ! j = snd (sys_regioninfo e (region_query R j))) \<and>
      ((\<forall>r. regionindex (snd (sys_regioninfo e r)) = regionindex r) \<longrightarrow>
         (\<forall>j < nat (sint n). regionindex (answered e R (nat (sint n)) ! j) = of_nat j))) \<and>
   (sys_regioncount e = (0, n) \<and> k < nat (sint n) \<and> nat (sint n) \<le> length R \<and>
    (\<forall>j < k. fst (sys_regioninfo e (region_query R j)) = 0) \<and>
    fst (sys_regioninfo e (region_query R k)) \<noteq> 0 \<longrightarrow>
      getregions e fd R =
        Inr (fst (sys_regioninfo e (region_query R k)), answered e R (Suc k), n,
             Ioctl_MEMGETREGIONCOUNT fd #
             map (\<lambda>j. Ioctl_MEMGETREGIONINFO fd (region_query R j)) [0..<Suc k]))"
proof (intro conjI)
  show "sys_regioncount e = (err, n) \<and> err \<noteq> 0 \<longrightarrow>
      getregions e fd R = Inr (err, R, n, [Ioctl_MEMGETREGIONCOUNT fd])"
    by (simp add: getregions_def)
next
  show "sys_regioncount e = (0, 0) \<longrightarrow>
      getregions e fd R = Inr (0, R, 0, [Ioctl_MEMGETREGIONCOUNT fd])"
    by (simp add: getregions_def getregions_loop.simps [of _ _ _ 0])
next
  show "sys_regioncount e = (0, n) \<and> 0 <s n \<and> nat (sint n) \<le> length R \<and>
    (\<forall>j < nat (sint n). fst (sys_regioninfo e (region_query R j)) = 0) \<longrightarrow>
      getregions e fd R =
        Inr (0, answered e R (nat (sint n)), n,
             Ioctl_MEMGETREGIONCOUNT fd #
             map (\<lambda>j. Ioctl_MEMGETREGIONINFO fd (region_query R j)) [0..<nat (sint n)]) \<and>
      (\<forall>j < nat (sint n).
         regionindex (region_query R j) = of_nat j \<and>
         answered e R (nat (sint n)) ! j = snd (sys_regioninfo e (region_query R j))) \<and>
      ((\<forall>r. regionindex (snd (sys_regioninfo e r)) = regionindex r) \<longrightarrow>
         (\<forall>j < nat (sint n). regionindex (answered e R (nat (sint n)) ! j) = of_nat j))"
  proof (intro impI conjI)
    assume a: "sys_regioncount e = (0, n) \<and> 0 <s n \<and> nat (sint n) \<le> length R \<and>
      (\<forall>j < nat (sint n). fst (sys_regioninfo e (region_query R j)) = 0)"
    then show "getregions e fd R =
        Inr (0, answered e R (nat (sint n)), n,
             Ioctl_MEMGETREGIONCOUNT fd #
             map (\<lambda>j. Ioctl_MEMGETREGIONINFO fd (region_query R j)) [0..<nat (sint n)])"
      using getregions_all [of e n R fd] by simp
    from a show "\<forall>j < nat (sint n).
         regionindex (region_query R j) = of_nat j \<and>
         answered e R (nat (sint n)) ! j = snd (sys_regioninfo e (region_query R j))"
      by (simp add: region_query_def answered_nth)
    assume "\<forall>r. regionindex (snd (sys_regioninfo e r)) = regionindex r"
    with a show "\<forall>j < nat (sint n). regionindex (answered e R (nat (sint n)) ! j) = of_nat j"
      by (simp add: region_query_def answered_nth)
  qed
next
  show "sys_regioncount e = (0, n) \<and> k < nat (sint n) \<and> nat (sint n) \<le> length R \<and>
    (\<forall>j < k. fst (sys_regioninfo e (region_query R j)) = 0) \<and>
    fst (sys_regioninfo e (region_query R k)) \<noteq> 0 \<longrightarrow>
      getregions e fd R =
        Inr (fst (sys_regioninfo e (region_query R k)), answered e R (Suc k), n,
             Ioctl_MEMGETREGIONCOUNT fd #
             map (\<lambda>j. Ioctl_MEMGETREGIONINFO fd (region_query R j)) [0..<Suc k])"
    using getregions_first_failure [of e n k R fd] by blast
qed

theorem region_enumeration_witness:
  "sys_regioncount sys_two_regions = (0, 2) \<and> (0 :: cint) <s 2 \<and>
   nat (sint (2 :: cint)) \<le> length [zero_region, zero_region, zero_region] \<and>
   getregions sys_two_regions 3 [zero_region, zero_region, zero_region] =
     Inr (0,
          [\<lparr>reg_offset = 0, reg_erasesize = 0x20000, reg_numblocks = 1024, regionindex = 0\<rparr>,
           \<lparr>reg_offset = 0, reg_erasesize = 0x20000, reg_numblocks = 1024, regionindex = 1\<rparr>,
           zero_region],
          2,
          [Ioctl_MEMGETREGIONCOUNT 3,
           Ioctl_MEMGETREGIONINFO 3 zero_region,
           Ioctl_MEMGETREGIONINFO 3 (zero_region\<lparr>regionindex := 1\<rparr>)]) \<and>
   sys_regioncount sys_region_fail = (0, 2) \<and>
   fst (sys_regioninfo sys_region_fail
         (region_query [zero_region, zero_region, zero_region] 0)) \<noteq> 0 \<and>
   getregions sys_region_fail 3 [zero_region, zero_region, zero_region] =
     Inr (- 1, [zero_region, zero_region, zero_region], 2,
          [Ioctl_MEMGETREGIONCOUNT 3, Ioctl_MEMGETREGIONINFO 3 zero_region])"
proof -
  let ?R = "[zero_region, zero_region, zero_region]"
  have n2: "nat (sint (2 :: cint)) = 2" by simp
  have c: "sys_regioncount sys_two_regions = (0, 2)"
    by (simp add: sys_two_regions_def sys0_def)
  have pos: "(0 :: cint) <s 2" by (simp add: word_sless_alt)
  have cap: "nat (sint (2 :: cint)) \<le> length ?R" by simp
  have ok: "\<forall>j < nat (sint (2 :: cint)).
      fst (sys_regioninfo sys_two_regions (region_query ?R j)) = 0"
    by (simp add: sys_two_regions_def sys0_def)
  have q: "region_query ?R 0 = zero_region" "region_query ?R 1 = zero_region\<lparr>regionindex := 1\<rparr>"
      "region_query ?R (Suc 0) = zero_region\<lparr>regionindex := 1\<rparr>"
    by (simp_all add: region_query_def zero_region_def)
  have up: "[0..<2] = [0, 1 :: nat]" "[0..<Suc 0] = [0 :: nat]" "[0..<3] = [0, 1, 2 :: nat]"
    by (simp_all add: upt_rec)
  have ans: "answered sys_two_regions ?R 2 =
      [\<lparr>reg_offset = 0, reg_erasesize = 0x20000, reg_numblocks = 1024, regionindex = 0\<rparr>,
       \<lparr>reg_offset = 0, reg_erasesize = 0x20000, reg_numblocks = 1024, regionindex = 1\<rparr>,
       zero_region]"
    by (simp add: answered_def up region_query_def sys_two_regions_def sys0_def zero_region_def)
  from region_enumeration [of sys_two_regions 0 2 3 ?R 0] c pos cap ok
  have a: "getregions sys_two_regions 3 ?R =
        Inr (0, answered sys_two_regions ?R (nat (sint (2 :: cint))), 2,
             Ioctl_MEMGETREGIONCOUNT 3 #
             map (\<lambda>j. Ioctl_MEMGETREGIONINFO 3 (region_query ?R j)) [0..<nat (sint (2 :: cint))])"
    by blast
  have a': "getregions sys_two_regions 3 ?R =
     Inr (0,
          [\<lparr>reg_offset = 0, reg_erasesize = 0x20000, reg_numblocks = 1024, regionindex = 0\<rparr>,
           \<lparr>reg_offset = 0, reg_erasesize = 0x20000, reg_numblocks = 1024, regionindex = 1\<rparr>,
           zero_region],
          2,
          [Ioctl_MEMGETREGIONCOUNT 3,
           Ioctl_MEMGETREGIONINFO 3 zero_region,
           Ioctl_MEMGETREGIONINFO 3 (zero_region\<lparr>regionindex := 1\<rparr>)])"
    unfolding a n2 ans by (simp add: up q)
  have c': "sys_regioncount sys_region_fail = (0, 2)"
    by (simp add: sys_region_fail_def sys0_def)
  have bad: "fst (sys_regioninfo sys_region_fail (region_query ?R 0)) \<noteq> 0"
    by (simp add: sys_region_fail_def sys0_def)
  have k: "0 < nat (sint (2 :: cint))" by simp
  have ok0: "\<forall>j < (0 :: nat). fst (sys_regioninfo sys_region_fail (region_query ?R j)) = 0"
    by simp
  from region_enumeration [of sys_region_fail 0 2 3 ?R 0] c' k cap ok0 bad
  have b: "getregions sys_region_fail 3 ?R =
        Inr (fst (sys_regioninfo sys_region_fail (region_query ?R 0)),
             answered sys_region_fail ?R (Suc 0), 2,
             Ioctl_MEMGETREGIONCOUNT 3 #
             map (\<lambda>j. Ioctl_MEMGETREGIONINFO 3 (region_query ?R j)) [0..<Suc 0])"
    by blast
  have ans': "answered sys_region_fail ?R (Suc 0) = ?R"
    by (simp add: answered_def up region_query_def sys_region_fail_def sys0_def zero_region_def)
  have b': "getregions sys_region_fail 3 ?R =
     Inr (- 1, ?R, 2, [Ioctl_MEMGETREGIONCOUNT 3, Ioctl_MEMGETREGIONINFO 3 zero_region])"
    unfolding b ans' by (simp add: up q sys_region_fail_def sys0_def)
  from c pos cap a' c' bad b' show ?thesis by (intro conjI)
qed

subsection \<open>The result of the info command\<close>

text \<open>
  Claim C4 (the program does not do what the claim says). When the device-info query
  fails, \<open>showinfo\<close> reports it and returns 1, but \<open>mtd_debug_info\<close> calls \<open>showinfo(fd)\<close>
  without keeping its result and returns its own \<open>err\<close>, which is still 0. The same
  happens when a region query fails. The other three commands assign the result of
  their operation to \<open>err\<close>.
\<close>

theorem mtd_debug_info_hides_query_failure:
  "fst (sys_memgetinfo sys_info_fail) <s 0 \<and>
   showinfo sys_info_fail abi0 3 (replicate 1024 zero_region) =
     Inr (1, [Ioctl_MEMGETINFO 3, Perror ''MEMGETINFO'']) \<and>
   mtd_debug_info sys_info_fail abi0 (replicate 1024 zero_region) ''mtd0'' =
     Inr (Returned 0,
          [Open ''/dev/mtd0'' O_RDONLY, Ioctl_MEMGETINFO 3, Perror ''MEMGETINFO'', Close 3]) \<and>
   mtd_debug_info sys_region_fail abi0 (replicate 1024 zero_region) ''mtd0'' =
     Inr (Returned 0,
          [Open ''/dev/mtd0'' O_RDONLY, Ioctl_MEMGETINFO 3, Ioctl_MEMGETREGIONCOUNT 3,
           Ioctl_MEMGETREGIONINFO 3 zero_region, Perror ''MEMGETREGIONCOUNT'', Close 3])"
  by (simp add: sys_info_fail_def sys_region_fail_def sys0_def mtd_debug_info_def showinfo_def
      getregions_def getregions_loop.simps errmsg_die_def zero_region_def Let_def
      word_sless_alt)

subsection \<open>The commands open and close the device\<close>

lemma retry_no_open:
  "flash_to_file_retry e len tr = (ok, sz', tr') \<Longrightarrow> filter is_Open tr' = filter is_Open tr"
  "file_to_flash_retry e len tr = (ok, sz', tr') \<Longrightarrow> filter is_Open tr' = filter is_Open tr"
  by (auto simp: flash_to_file_retry_cases file_to_flash_retry_cases split: if_splits)

lemma flash_to_file_returns:
  "\<exists>r tr. flash_to_file e fd offset len f = Some (r, tr) \<and> filter is_Open tr = []"
proof (cases rule: flash_to_file_cases [of offset e fd len f])
  case seek
  then show ?thesis by simp
next
  case creat
  then show ?thesis by simp
next
  case (nomem sz' tr')
  from nomem(3) have "filter is_Open tr' = []"
    using retry_no_open(1) [of e len "[Lseek fd offset, Creat f]" False sz' tr'] by simp
  with nomem(4) show ?thesis by simp
next
  case (failed sz' tr' st')
  from failed(3) have s: "filter is_Open tr' = []"
    using retry_no_open(1) [of e len "[Lseek fd offset, Creat f]" True sz' tr'] by simp
  from failed(4) obtain evs where "x_tr st' = tr' @ evs" "list_all copy_event evs"
    using flash_to_file_loop_trace by fastforce
  with s have "filter is_Open (x_tr st') = []" using copy_events_filter [of evs] by simp
  with failed(5) show ?thesis by simp
next
  case (copied sz' tr' st')
  from copied(3) have s: "filter is_Open tr' = []"
    using retry_no_open(1) [of e len "[Lseek fd offset, Creat f]" True sz' tr'] by simp
  from copied(4) obtain evs where "x_tr st' = tr' @ evs" "list_all copy_event evs"
    using flash_to_file_loop_trace by fastforce
  with s have "filter is_Open (x_tr st') = []" using copy_events_filter [of evs] by simp
  with copied(5) show ?thesis by simp
qed

lemma file_to_flash_returns:
  "\<exists>r tr. file_to_flash e fd offset len f = Some (r, tr) \<and> filter is_Open tr = []"
proof (cases rule: file_to_flash_cases [of offset e fd len f])
  case seek
  then show ?thesis by simp
next
  case fopen
  then show ?thesis by simp
next
  case (nomem sz' tr')
  from nomem(3) have "filter is_Open tr' = []"
    using retry_no_open(2) [of e len "[Lseek fd offset, Fopen f]" False sz' tr'] by simp
  with nomem(4) show ?thesis by simp
next
  case (failed sz' tr' st')
  from failed(3) have s: "filter is_Open tr' = []"
    using retry_no_open(2) [of e len "[Lseek fd offset, Fopen f]" True sz' tr'] by simp
  from failed(4) obtain evs where "x_tr st' = tr' @ evs" "list_all copy_event evs"
    using file_to_flash_loop_trace by fastforce
  with s have "filter is_Open (x_tr st') = []" using copy_events_filter [of evs] by simp
  with failed(5) show ?thesis by simp
next
  case (copied sz' tr' st')
  from copied(3) have s: "filter is_Open tr' = []"
    using retry_no_open(2) [of e len "[Lseek fd offset, Fopen f]" True sz' tr'] by simp
  from copied(4) obtain evs where "x_tr st' = tr' @ evs" "list_all copy_event evs"
    using file_to_flash_loop_trace by fastforce
  with s have "filter is_Open (x_tr st') = []" using copy_events_filter [of evs] by simp
  with copied(5) show ?thesis by simp
qed

lemma getregions_loop_returns:
  "nat (sint n) \<le> length regions \<Longrightarrow>
   \<exists>err regs tr'. getregions_loop e fd regions n i tr = Inr (err, regs, tr') \<and>
      length regs = length regions \<and> filter is_Open tr' = filter is_Open tr"
proof (induction e fd regions n i tr rule: getregions_loop.induct)
  case (1 e fd regions n i tr)
  show ?case
  proof (cases "int i < sint n")
    case False
    then show ?thesis by (subst getregions_loop.simps) simp
  next
    case True
    with 1(2) have lt: "i < length regions" by linarith
    let ?r = "(regions ! i)\<lparr>regionindex := of_nat i\<rparr>"
    obtain err r' where q: "sys_regioninfo e ?r = (err, r')" by (cases "sys_regioninfo e ?r")
    show ?thesis
    proof (cases "err = 0")
      case False
      with True lt q show ?thesis by (subst getregions_loop.simps) (simp add: Let_def)
    next
      case z: True
      from 1(2) have "nat (sint n) \<le> length (regions[i := r'])" by simp
      with 1(1) [OF True lt refl refl q [symmetric]] z
      obtain err' regs tr' where
        "getregions_loop e fd (regions[i := r']) n (i + 1)
           (tr @ [Ioctl_MEMGETREGIONINFO fd ?r]) = Inr (err', regs, tr')"
        "length regs = length regions"
        "filter is_Open tr' = filter is_Open tr"
        by auto
      with True lt q z show ?thesis by (subst getregions_loop.simps) (simp add: Let_def)
    qed
  qed
qed

lemma showinfo_returns:
  assumes "nat (sint (snd (sys_regioncount e))) \<le> length region"
  shows "\<exists>r tr. showinfo e abi fd region = Inr (r, tr) \<and> filter is_Open tr = []"
proof -
  obtain err mtd where m: "sys_memgetinfo e = (err, mtd)" by (cases "sys_memgetinfo e")
  obtain cerr n where c: "sys_regioncount e = (cerr, n)" by (cases "sys_regioncount e")
  with assms have cap: "nat (sint n) \<le> length region" by simp
  obtain err' regs tr' where l:
    "getregions_loop e fd region n 0 [Ioctl_MEMGETREGIONCOUNT fd] = Inr (err', regs, tr')"
    "length regs = length region" "filter is_Open tr' = []"
    using getregions_loop_returns [OF cap, of e fd 0 "[Ioctl_MEMGETREGIONCOUNT fd]"] by auto
  show ?thesis
    using m c cap l by (simp add: showinfo_def getregions_def)
qed

text \<open>
  Claim C9. Once the device node is found, each command opens it, with \<open>O_RDONLY\<close> for
  info and read-out and with \<open>O_RDWR\<close> for write-in and erase, and a failed open ends
  the command at once. When the open succeeded, the operation returns (for info: when
  the device reports no more regions than the table holds), whatever its result the
  next call is \<open>close\<close> on that handle, the operation itself opens nothing, and a failed
  close ends the process with a diagnostic instead of returning.
\<close>

theorem commands_open_and_close_device:
  assumes dev: "mtd_find_dev_node e mtd_dev = Some dev"
  shows
  "(sys_open e dev O_RDONLY <s 0 \<longrightarrow>
      mtd_debug_info e abi region mtd_dev =
        Inr (Died, [Open dev O_RDONLY, Stderr ''open()'']) \<and>
      mtd_debug_read e mtd_dev offset len file =
        Some (Died, [banner ''mtd_debug_read'' mtd_dev offset len, Open dev O_RDONLY,
                     Stderr ''open()''])) \<and>
   (sys_open e dev O_RDWR <s 0 \<longrightarrow>
      mtd_debug_write e mtd_dev offset len file =
        Some (Died, [banner ''mtd_debug_write'' mtd_dev offset len, Open dev O_RDWR,
                     Stderr ''open()'']) \<and>
      mtd_debug_erase e mtd_dev offset len =
        (Died, [banner ''mtd_debug_erase'' mtd_dev offset len, Open dev O_RDWR,
                Stderr ''open()''])) \<and>
   (\<not> sys_open e dev O_RDONLY <s 0 \<and>
    nat (sint (snd (sys_regioncount e))) \<le> length region \<longrightarrow>
      (\<exists>r tr. showinfo e abi (sys_open e dev O_RDONLY) region = Inr (r, tr) \<and>
               filter is_Open tr = [] \<and>
               mtd_debug_info e abi region mtd_dev =
                 Inr (close_outcome e (sys_open e dev O_RDONLY) 0,
                      [Open dev O_RDONLY] @ tr @ close_events e (sys_open e dev O_RDONLY)))) \<and>
   (\<not> sys_open e dev O_RDONLY <s 0 \<longrightarrow>
      (\<exists>err tr. flash_to_file e (sys_open e dev O_RDONLY) (uint offset) len file =
                   Some (err, tr) \<and>
                 filter is_Open tr = [] \<and>
                 mtd_debug_read e mtd_dev offset len file =
                   Some (close_outcome e (sys_open e dev O_RDONLY) err,
                         [banner ''mtd_debug_read'' mtd_dev offset len, Open dev O_RDONLY] @
                         tr @ close_events e (sys_open e dev O_RDONLY)))) \<and>
   (\<not> sys_open e dev O_RDWR <s 0 \<longrightarrow>
      (\<exists>err tr. file_to_flash e (sys_open e dev O_RDWR) (uint offset) len file =
                   Some (err, tr) \<and>
                 filter is_Open tr = [] \<and>
                 mtd_debug_write e mtd_dev offset len file =
                   Some (close_outcome e (sys_open e dev O_RDWR) err,
                         [banner ''mtd_debug_write'' mtd_dev offset len, Open dev O_RDWR] @
                         tr @ close_events e (sys_open e dev O_RDWR))) \<and>
      (\<exists>err tr. erase_flash e (sys_open e dev O_RDWR) offset len = (err, tr) \<and>
                 filter is_Open tr = [] \<and>
                 mtd_debug_erase e mtd_dev offset len =
                   (close_outcome e (sys_open e dev O_RDWR) err,
                    [banner ''mtd_debug_erase'' mtd_dev offset len, Open dev O_RDWR] @
                    tr @ close_events e (sys_open e dev O_RDWR))))"
proof (intro conjI impI)
  assume "sys_open e dev O_RDONLY <s 0"
  with dev show "mtd_debug_info e abi region mtd_dev =
        Inr (Died, [Open dev O_RDONLY, Stderr ''open()''])"
    and "mtd_debug_read e mtd_dev offset len file =
        Some (Died, [banner ''mtd_debug_read'' mtd_dev offset len, Open dev O_RDONLY,
                     Stderr ''open()''])"
    by (simp_all add: mtd_debug_info_def mtd_debug_read_def errmsg_die_def Let_def)
next
  assume "sys_open e dev O_RDWR <s 0"
  with dev show "mtd_debug_write e mtd_dev offset len file =
        Some (Died, [banner ''mtd_debug_write'' mtd_dev offset len, Open dev O_RDWR,
                     Stderr ''open()''])"
    and "mtd_debug_erase e mtd_dev offset len =
        (Died, [banner ''mtd_debug_erase'' mtd_dev offset len, Open dev O_RDWR,
                Stderr ''open()''])"
    by (simp_all add: mtd_debug_write_def mtd_debug_erase_def errmsg_die_def Let_def)
next
  assume a: "\<not> sys_open e dev O_RDONLY <s 0 \<and>
    nat (sint (snd (sys_regioncount e))) \<le> length region"
  then obtain r tr where
    "showinfo e abi (sys_open e dev O_RDONLY) region = Inr (r, tr)" "filter is_Open tr = []"
    using showinfo_returns [of e region abi "sys_open e dev O_RDONLY"] by blast
  with a dev show "\<exists>r tr. showinfo e abi (sys_open e dev O_RDONLY) region = Inr (r, tr) \<and>
               filter is_Open tr = [] \<and>
               mtd_debug_info e abi region mtd_dev =
                 Inr (close_outcome e (sys_open e dev O_RDONLY) 0,
                      [Open dev O_RDONLY] @ tr @ close_events e (sys_open e dev O_RDONLY))"
    by (simp add: mtd_debug_info_def errmsg_die_def close_outcome_def close_events_def Let_def)
next
  assume a: "\<not> sys_open e dev O_RDONLY <s 0"
  obtain err tr where
    "flash_to_file e (sys_open e dev O_RDONLY) (uint offset) len file = Some (err, tr)"
    "filter is_Open tr = []"
    using flash_to_file_returns [of e "sys_open e dev O_RDONLY" "uint offset" len "file"] by blast
  with a dev show "\<exists>err tr. flash_to_file e (sys_open e dev O_RDONLY) (uint offset) len file =
                   Some (err, tr) \<and>
                 filter is_Open tr = [] \<and>
                 mtd_debug_read e mtd_dev offset len file =
                   Some (close_outcome e (sys_open e dev O_RDONLY) err,
                         [banner ''mtd_debug_read'' mtd_dev offset len, Open dev O_RDONLY] @
                         tr @ close_events e (sys_open e dev O_RDONLY))"
    by (simp add: mtd_debug_read_def errmsg_die_def close_outcome_def close_events_def Let_def)
next
  assume a: "\<not> sys_open e dev O_RDWR <s 0"
  obtain err tr where
    "file_to_flash e (sys_open e dev O_RDWR) (uint offset) len file = Some (err, tr)"
    "filter is_Open tr = []"
    using file_to_flash_returns [of e "sys_open e dev O_RDWR" "uint offset" len "file"] by blast
  with a dev show "\<exists>err tr. file_to_flash e (sys_open e dev O_RDWR) (uint offset) len file =
                   Some (err, tr) \<and>
                 filter is_Open tr = [] \<and>
                 mtd_debug_write e mtd_dev offset len file =
                   Some (close_outcome e (sys_open e dev O_RDWR) err,
                         [banner ''mtd_debug_write'' mtd_dev offset len, Open dev O_RDWR] @
                         tr @ close_events e (sys_open e dev O_RDWR))"
    by (simp add: mtd_debug_write_def errmsg_die_def close_outcome_def close_events_def Let_def)
  from a dev show "\<exists>err tr. erase_flash e (sys_open e dev O_RDWR) offset len = (err, tr) \<and>
                 filter is_Open tr = [] \<and>
                 mtd_debug_erase e mtd_dev offset len =
                   (close_outcome e (sys_open e dev O_RDWR) err,
                    [banner ''mtd_debug_erase'' mtd_dev offset len, Open dev O_RDWR] @
                    tr @ close_events e (sys_open e dev O_RDWR))"
    by (simp add: mtd_debug_erase_def erase_flash_def errmsg_die_def close_outcome_def
        close_events_def Let_def)
qed

theorem commands_open_and_close_device_witness:
  "mtd_find_dev_node sys0 ''mtd0'' = Some ''/dev/mtd0'' \<and>
   \<not> sys_open sys0 ''/dev/mtd0'' O_RDONLY <s 0 \<and>
   nat (sint (snd (sys_regioncount sys0))) \<le> length (replicate 1024 zero_region) \<and>
   mtd_debug_info sys0 abi0 (replicate 1024 zero_region) ''mtd0'' =
     Inr (Returned 0,
          [Open ''/dev/mtd0'' O_RDONLY, Ioctl_MEMGETINFO 3, Ioctl_MEMGETREGIONCOUNT 3,
           Stdout (''mtd.type = MTD_NANDFLASH'' @ nl @
                   ''mtd.flags = MTD_CAP_NANDFLASH'' @ nl @
                   ''mtd.size = 134217728 (128M)'' @ nl @
                   ''mtd.erasesize = 131072 (128K)'' @ nl @
                   ''mtd.writesize = 2048 (2K)'' @ nl @
                   ''mtd.oobsize = 64 '' @ nl @
                   ''regions = 0'' @ nl @ nl),
           Close 3]) \<and>
   mtd_find_dev_node sys_no_memory ''mtd0'' = Some ''/dev/mtd0'' \<and>
   \<not> sys_open sys_no_memory ''/dev/mtd0'' O_RDONLY <s 0 \<and>
   mtd_debug_read sys_no_memory ''mtd0'' 0 16 ''out.bin'' =
     Some (Returned 1,
           [Stdout (''mtd_debug_read mtd0 0 10'' @ nl), Open ''/dev/mtd0'' O_RDONLY,
            Lseek 3 0, Creat ''out.bin'', Malloc 16,
            Stderr (''flash_to_file: malloc(0x10)'' @ nl),
            Stderr (''flash_to_file: trying buffer size 0x10000'' @ nl),
            Malloc 65536,
            Stderr (''flash_to_file: malloc(0x10000)'' @ nl),
            Perror ''malloc()'', Close 4, Free, Close 3]) \<and>
   mtd_find_dev_node sys_close_fail ''mtd0'' = Some ''/dev/mtd0'' \<and>
   \<not> sys_open sys_close_fail ''/dev/mtd0'' O_RDWR <s 0 \<and>
   mtd_debug_erase sys_close_fail ''mtd0'' 65536 65536 =
     (Died,
      [Stdout (''mtd_debug_erase mtd0 10000 10000'' @ nl), Open ''/dev/mtd0'' O_RDWR,
       Ioctl_MEMERASE 3 \<lparr>erase_start = 65536, erase_length = 65536\<rparr>,
       Stderr (''Erased 65536 bytes from address 0x00010000 in flash'' @ nl),
       Close 3, Stderr ''close()''])"
proof -
  have d0: "mtd_find_dev_node sys0 ''mtd0'' = Some ''/dev/mtd0''"
    by (simp add: sys0_def)
  have o0: "\<not> sys_open sys0 ''/dev/mtd0'' O_RDONLY <s 0"
    by (simp add: sys0_def word_sless_alt)
  have cap: "nat (sint (snd (sys_regioncount sys0))) \<le> length (replicate 1024 zero_region)"
    by (simp add: sys0_def)
  have fd0: "sys_open sys0 ''/dev/mtd0'' O_RDONLY = 3"
    by (simp add: sys0_def)
  have info: "showinfo sys0 abi0 3 (replicate 1024 zero_region) =
     Inr (0, [Ioctl_MEMGETINFO 3, Ioctl_MEMGETREGIONCOUNT 3,
              Stdout (''mtd.type = MTD_NANDFLASH'' @ nl @
                      ''mtd.flags = MTD_CAP_NANDFLASH'' @ nl @
                      ''mtd.size = 134217728 (128M)'' @ nl @
                      ''mtd.erasesize = 131072 (128K)'' @ nl @
                      ''mtd.writesize = 2048 (2K)'' @ nl @
                      ''mtd.oobsize = 64 '' @ nl @
                      ''regions = 0'' @ nl @ nl)])"
    by (simp add: showinfo_def getregions_def getregions_loop.simps sys0_def abi0_def
        show_type_def show_flags_def printsize_eval fmt_eval word_sless_alt Let_def)
  have cl0: "close_outcome sys0 3 0 = Returned 0" "close_events sys0 3 = [Close 3]"
    by (simp_all add: close_outcome_def close_events_def sys0_def word_sless_alt)
  from commands_open_and_close_device
         [OF d0, of abi0 "replicate 1024 zero_region" 0 16 "''out.bin''"] o0 cap
  obtain r0 tr0 where
    "showinfo sys0 abi0 (sys_open sys0 ''/dev/mtd0'' O_RDONLY) (replicate 1024 zero_region) =
       Inr (r0, tr0)"
    "mtd_debug_info sys0 abi0 (replicate 1024 zero_region) ''mtd0'' =
       Inr (close_outcome sys0 (sys_open sys0 ''/dev/mtd0'' O_RDONLY) 0,
            [Open ''/dev/mtd0'' O_RDONLY] @ tr0 @
            close_events sys0 (sys_open sys0 ''/dev/mtd0'' O_RDONLY))"
    by blast
  with info have i: "mtd_debug_info sys0 abi0 (replicate 1024 zero_region) ''mtd0'' =
     Inr (Returned 0,
          [Open ''/dev/mtd0'' O_RDONLY, Ioctl_MEMGETINFO 3, Ioctl_MEMGETREGIONCOUNT 3,
           Stdout (''mtd.type = MTD_NANDFLASH'' @ nl @
                   ''mtd.flags = MTD_CAP_NANDFLASH'' @ nl @
                   ''mtd.size = 134217728 (128M)'' @ nl @
                   ''mtd.erasesize = 131072 (128K)'' @ nl @
                   ''mtd.writesize = 2048 (2K)'' @ nl @
                   ''mtd.oobsize = 64 '' @ nl @
                   ''regions = 0'' @ nl @ nl),
           Close 3])"
    by (simp add: fd0 cl0)
  have d1: "mtd_find_dev_node sys_no_memory ''mtd0'' = Some ''/dev/mtd0''"
    by (simp add: sys_no_memory_def sys0_def)
  have o1: "\<not> sys_open sys_no_memory ''/dev/mtd0'' O_RDONLY <s 0"
    by (simp add: sys_no_memory_def sys0_def word_sless_alt)
  have fd1: "sys_open sys_no_memory ''/dev/mtd0'' O_RDONLY = 3"
    by (simp add: sys_no_memory_def sys0_def)
  have run: "flash_to_file sys_no_memory 3 (uint (0 :: u32)) 16 ''out.bin'' =
     Some (1, [Lseek 3 0, Creat ''out.bin'', Malloc 16,
            Stderr (''flash_to_file: malloc(0x10)'' @ nl),
            Stderr (''flash_to_file: trying buffer size 0x10000'' @ nl),
            Malloc 65536,
            Stderr (''flash_to_file: malloc(0x10000)'' @ nl),
            Perror ''malloc()'', Close 4, Free])"
    by (simp add: sys_no_memory_def sys0_def run_eval fmt_eval)
  have cl1: "close_outcome sys_no_memory 3 1 = Returned 1" "close_events sys_no_memory 3 = [Close 3]"
    by (simp_all add: close_outcome_def close_events_def sys_no_memory_def sys0_def word_sless_alt)
  have b1: "banner ''mtd_debug_read'' ''mtd0'' 0 16 = Stdout (''mtd_debug_read mtd0 0 10'' @ nl)"
    by (simp add: banner_def fmt_eval)
  from commands_open_and_close_device [OF d1, of abi0 "[]" 0 16 "''out.bin''"] o1
  obtain err tr where
    "flash_to_file sys_no_memory (sys_open sys_no_memory ''/dev/mtd0'' O_RDONLY) (uint (0 :: u32))
       16 ''out.bin'' = Some (err, tr)"
    "mtd_debug_read sys_no_memory ''mtd0'' 0 16 ''out.bin'' =
       Some (close_outcome sys_no_memory (sys_open sys_no_memory ''/dev/mtd0'' O_RDONLY) err,
             [banner ''mtd_debug_read'' ''mtd0'' 0 16, Open ''/dev/mtd0'' O_RDONLY] @ tr @
             close_events sys_no_memory (sys_open sys_no_memory ''/dev/mtd0'' O_RDONLY))"
    by blast
  with run have r: "mtd_debug_read sys_no_memory ''mtd0'' 0 16 ''out.bin'' =
     Some (Returned 1,
           [Stdout (''mtd_debug_read mtd0 0 10'' @ nl), Open ''/dev/mtd0'' O_RDONLY,
            Lseek 3 0, Creat ''out.bin'', Malloc 16,
            Stderr (''flash_to_file: malloc(0x10)'' @ nl),
            Stderr (''flash_to_file: trying buffer size 0x10000'' @ nl),
            Malloc 65536,
            Stderr (''flash_to_file: malloc(0x10000)'' @ nl),
            Perror ''malloc()'', Close 4, Free, Close 3])"
    by (simp add: fd1 cl1 b1)
  have d2: "mtd_find_dev_node sys_close_fail ''mtd0'' = Some ''/dev/mtd0''"
    by (simp add: sys_close_fail_def sys0_def)
  have o2: "\<not> sys_open sys_close_fail ''/dev/mtd0'' O_RDWR <s 0"
    by (simp add: sys_close_fail_def sys0_def word_sless_alt)
  have fd2: "sys_open sys_close_fail ''/dev/mtd0'' O_RDWR = 3"
    by (simp add: sys_close_fail_def sys0_def)
  have er: "erase_flash sys_close_fail 3 65536 65536 =
     (0, [Ioctl_MEMERASE 3 \<lparr>erase_start = 65536, erase_length = 65536\<rparr>,
          Stderr (''Erased 65536 bytes from address 0x00010000 in flash'' @ nl)])"
    by (simp add: erase_flash_def sys_close_fail_def sys0_def Let_def word_sless_alt fmt_eval)
  have cl2: "close_outcome sys_close_fail 3 0 = Died"
      "close_events sys_close_fail 3 = [Close 3, Stderr ''close()'']"
    by (simp_all add: close_outcome_def close_events_def sys_close_fail_def sys0_def)
  have b2: "banner ''mtd_debug_erase'' ''mtd0'' 65536 65536 =
      Stdout (''mtd_debug_erase mtd0 10000 10000'' @ nl)"
    by (simp add: banner_def fmt_eval)
  from commands_open_and_close_device [OF d2, of abi0 "[]" 65536 65536 "''out.bin''"] o2
  obtain err' tr' where
    "erase_flash sys_close_fail (sys_open sys_close_fail ''/dev/mtd0'' O_RDWR) 65536 65536 =
       (err', tr')"
    "mtd_debug_erase sys_close_fail ''mtd0'' 65536 65536 =
       (close_outcome sys_close_fail (sys_open sys_close_fail ''/dev/mtd0'' O_RDWR) err',
        [banner ''mtd_debug_erase'' ''mtd0'' 65536 65536, Open ''/dev/mtd0'' O_RDWR] @ tr' @
        close_events sys_close_fail (sys_open sys_close_fail ''/dev/mtd0'' O_RDWR))"
    by blast
  with er have w: "mtd_debug_erase sys_close_fail ''mtd0'' 65536 65536 =
     (Died,
      [Stdout (''mtd_debug_erase mtd0 10000 10000'' @ nl), Open ''/dev/mtd0'' O_RDWR,
       Ioctl_MEMERASE 3 \<lparr>erase_start = 65536, erase_length = 65536\<rparr>,
       Stderr (''Erased 65536 bytes from address 0x00010000 in flash'' @ nl),
       Close 3, Stderr ''close()''])"
    by (simp add: fd2 cl2 b2)
  from d0 o0 cap i d1 o1 r d2 o2 w show ?thesis by (intro conjI)
qed

end
